theory Spec2Isabelle
  imports Complex_Main "HOL-Library.Multiset"
begin

section \<open>FirenzeCard analysis (features/firenzecard.py)\<close>

text \<open>
  A shallow embedding of the tabular pipeline of \<^verbatim>\<open>firenzecard.py\<close>. A data frame is
  the list of its rows, a row is a record of its columns. Timestamps are integers
  (nanoseconds since the epoch, the resolution of a pandas Timestamp), calendar days are
  day numbers, and a float64 value is the rational number it stands for, every
  operation rounding as IEEE 754 does. Every operation of the source that can raise on
  the modelled data is a branch returning \<open>Inl\<close>.
\<close>

subsection \<open>Values and errors\<close>

datatype error =
  IndexError | AttributeError | TypeError | ValueError | EOFError | KeyError | RecursionError

text \<open>
  The values that \<^verbatim>\<open>timedelta_range\<close> and \<^verbatim>\<open>timeunit\<close> take in
  \<^verbatim>\<open>get_timedelta_range\<close>: the initial \<^verbatim>\<open>pd.DataFrame()\<close>, an integer, the empty
  list \<^verbatim>\<open>[]\<close> and a string.
\<close>

datatype pyval = EmptyFrame | IntVal int | EmptyList | StrVal string

text \<open>
  A cell of an aggregate frame: a number, the missing value, or the Python builtin
  function \<^verbatim>\<open>id\<close> (line 152 stores that object in the grouping column).
\<close>

datatype cell = Num int | NaN | Builtin_id

subsection \<open>get_timedelta_range (lines 240-269)\<close>

definition timedelta_options :: "string list" where
  "timedelta_options = [''day_of_week'', ''hour'', ''date'']"

text \<open>
  Lines 256-269: the three independent \<^verbatim>\<open>if\<close> statements that assign
  \<^verbatim>\<open>timedelta_range\<close> and \<^verbatim>\<open>timeunit\<close>, and the returned pair. For \<^verbatim>\<open>'date'\<close> the
  range is \<^verbatim>\<open>delta.days\<close>, the difference of the two day numbers.
\<close>

definition assign_range :: "string \<Rightarrow> pyval \<Rightarrow> pyval \<Rightarrow> int \<Rightarrow> int \<Rightarrow> pyval \<times> pyval" where
  "assign_range tdr_timedelta timedelta_range timeunit start_date end_date =
     (let (r1, u1) = (if tdr_timedelta = ''day_of_week'' then (IntVal 7, EmptyList)
                      else (timedelta_range, timeunit));
          (r2, u2) = (if tdr_timedelta = ''hour'' then (IntVal 24, EmptyList) else (r1, u1));
          (r3, u3) = (if tdr_timedelta = ''date''
                      then (IntVal (end_date - start_date), StrVal ''D'') else (r2, u2))
      in (r3, u3))"

text \<open>
  The function itself, with what it reads of its surroundings made explicit.
  \<^item> \<open>columns\<close> are the names of the columns of the frame \<^verbatim>\<open>df\<close>. Line 247,
    \<^verbatim>\<open>df[df['date'].isin(pd.date_range(start_date, end_date))]\<close>, raises \<^verbatim>\<open>KeyError\<close> when
    the frame has no column \<^verbatim>\<open>'date'\<close>. The filtered frame has the same columns and is
    used for nothing but the recursive call.
  \<^item> A date argument is \<open>Some\<close> day number, or \<open>None\<close> when pandas cannot make a
    timestamp of it (a missing or malformed value); \<^verbatim>\<open>pd.date_range\<close> of line 247 then
    raises \<^verbatim>\<open>ValueError\<close>.
  \<^item> Standard input is the list of the lines still to be read; \<^verbatim>\<open>input()\<close> on an
    exhausted input raises \<^verbatim>\<open>EOFError\<close>. The result is paired with the remaining input.
  \<^item> \<open>depth\<close> is the number of nested calls of the function the interpreter still
    allows; the call of line 254 beyond it raises \<^verbatim>\<open>RecursionError\<close>.
  On an unknown granularity the source prompts, calls itself with the answer and unpacks
  the result as \<^verbatim>\<open>timeunit, timedelta_range = ...\<close> (line 254, the two names in the
  opposite order of the returned pair); the local variable \<^verbatim>\<open>tdr_timedelta\<close> is then
  the answer.
\<close>

fun get_timedelta_range ::
  "nat \<Rightarrow> string list \<Rightarrow> string \<Rightarrow> int option \<Rightarrow> int option \<Rightarrow> string list
     \<Rightarrow> (error + pyval \<times> pyval) \<times> string list" where
  "get_timedelta_range depth columns tdr_timedelta start_date end_date stdin =
     (if ''date'' \<notin> set columns then (Inl KeyError, stdin)
      else case (start_date, end_date) of
        (Some s, Some e) \<Rightarrow>
          (if tdr_timedelta \<notin> set timedelta_options then
             (case stdin of
                [] \<Rightarrow> (Inl EOFError, [])
              | line # rest \<Rightarrow>
                  (case depth of
                     0 \<Rightarrow> (Inl RecursionError, rest)
                   | Suc d \<Rightarrow>
                       (case get_timedelta_range d columns line start_date end_date rest of
                          (Inl err, stdin') \<Rightarrow> (Inl err, stdin')
                        | (Inr (a, b), stdin') \<Rightarrow>
                            (Inr (assign_range line b a s e), stdin'))))
           else (Inr (assign_range tdr_timedelta EmptyFrame EmptyFrame s e), stdin))
      | _ \<Rightarrow> (Inl ValueError, stdin))"

declare get_timedelta_range.simps [simp del]

subsection \<open>interpolate_on_timedelta (lines 142-170)\<close>

text \<open>
  The frame \<^verbatim>\<open>data\<close> of line 151 has the two key columns; the aggregate frame \<^verbatim>\<open>df\<close>
  has the count column as well. The granularity column holds an hour, a day of the week
  or a day number.
\<close>

record key_row =
  timedelta_col :: int
  groupby_col :: cell

record agg_row = key_row +
  count_col :: cell

text \<open>\<^verbatim>\<open>range(n)\<close> as a list of integers (empty when \<open>n \<le> 0\<close>).\<close>

definition py_range :: "int \<Rightarrow> int list" where
  "py_range n = [0..n - 1]"

text \<open>
  Line 151-152: \<^verbatim>\<open>pd.DataFrame({timedelta: range(timedelta_range),
  groupby_object: [id] * timedelta_range})\<close>. The name \<^verbatim>\<open>id\<close> is bound nowhere in the
  function or the module, so it is the builtin.
\<close>

definition grid_data :: "int \<Rightarrow> key_row list" where
  "grid_data n = map (\<lambda>i. \<lparr>timedelta_col = i, groupby_col = Builtin_id\<rparr>) (py_range n)"

definition same_key :: "key_row \<Rightarrow> agg_row \<Rightarrow> bool" where
  "same_key l r \<longleftrightarrow> timedelta_col l = timedelta_col r \<and> groupby_col l = groupby_col r"

text \<open>
  Lines 154-155: the outer merge of \<^verbatim>\<open>data\<close> with \<^verbatim>\<open>df\<close> on the two key columns. A
  left row with matches gives the matching right rows, one without gives a row whose
  count is missing; the right rows without a match follow. (pandas orders the result by
  key; the order of rows is not modelled beyond this.)
\<close>

definition merge_outer :: "key_row list \<Rightarrow> agg_row list \<Rightarrow> agg_row list" where
  "merge_outer data df =
     concat (map (\<lambda>l. case filter (same_key l) df of
                         [] \<Rightarrow> [\<lparr>timedelta_col = timedelta_col l, groupby_col = groupby_col l,
                                 count_col = NaN\<rparr>]
                       | m # ms \<Rightarrow> m # ms) data)
     @ filter (\<lambda>r. \<not> list_ex (\<lambda>l. same_key l r) data) df"

text \<open>Line 156: \<^verbatim>\<open>fillna(0)\<close> on every column.\<close>

definition fill0 :: "cell \<Rightarrow> cell" where
  "fill0 c = (case c of NaN \<Rightarrow> Num 0 | _ \<Rightarrow> c)"

definition fillna :: "agg_row list \<Rightarrow> agg_row list" where
  "fillna df = map (\<lambda>r. \<lparr>timedelta_col = timedelta_col r, groupby_col = fill0 (groupby_col r),
                          count_col = fill0 (count_col r)\<rparr>) df"

text \<open>
  Lines 159-166: the frame \<^verbatim>\<open>full_id_days\<close>. The all-zero frame \<^verbatim>\<open>data\<close> is reindexed
  by the product of the observed keys and the days of the window, which gives one
  all-zero row per pair; \<^verbatim>\<open>reset_index\<close> puts the two index levels in front, and line
  165 names the four columns \<^verbatim>\<open>['drop this', timedelta, groupby_object, count_column]\<close>:
  the level of the keys is the column that is dropped, the level of the days becomes the
  granularity column, and the grouping and count columns are the zeros.
\<close>

definition full_id_days :: "agg_row list \<Rightarrow> int \<Rightarrow> int \<Rightarrow> agg_row list" where
  "full_id_days df start_date end_date =
     concat (map (\<lambda>k. map (\<lambda>d. \<lparr>timedelta_col = d, groupby_col = Num 0, count_col = Num 0\<rparr>)
                          [start_date..end_date])
                 (remdups (map groupby_col df)))"

text \<open>
  Line 167: the right merge on all three columns. Every row of \<^verbatim>\<open>df\<close> is kept, once
  per matching left row and once if there is none.
\<close>

definition merge_right :: "agg_row list \<Rightarrow> agg_row list \<Rightarrow> agg_row list" where
  "merge_right full df =
     concat (map (\<lambda>r. case filter (\<lambda>l. l = r) full of [] \<Rightarrow> [r] | m # ms \<Rightarrow> m # ms) df)"

text \<open>
  The function. Line 142 writes the fourth parameter as \<^verbatim>\<open>timedelta_range=,\<close>, which
  is read here as the plain parameter. The column names \<^verbatim>\<open>groupby_object\<close> and
  \<^verbatim>\<open>count_column\<close> are the fields of the row. \<^verbatim>\<open>range\<close> and \<^verbatim>\<open>np.arange\<close> raise \<^verbatim>\<open>TypeError\<close> on a value that
  is not an integer; of the frequencies of \<^verbatim>\<open>pd.date_range\<close> only the daily one, the
  one \<^verbatim>\<open>get_timedelta_range\<close> produces, is modelled. Any other granularity returns the
  empty frame of line 148.
\<close>

definition interpolate_on_timedelta ::
  "agg_row list \<Rightarrow> string \<Rightarrow> pyval \<Rightarrow> pyval \<Rightarrow> int \<Rightarrow> int \<Rightarrow> error + agg_row list" where
  "interpolate_on_timedelta df timedelta timedelta_range timeunit start_date end_date =
     (if timedelta = ''day_of_week'' \<or> timedelta = ''hour'' then
        (case timedelta_range of
           IntVal n \<Rightarrow> Inr (fillna (merge_outer (grid_data n) df))
         | _ \<Rightarrow> Inl TypeError)
      else if timedelta = ''date'' then
        (case timedelta_range of
           IntVal n \<Rightarrow>
             (if timeunit = StrVal ''D''
              then Inr (merge_right (full_id_days df start_date end_date) df)
              else Inl ValueError)
         | _ \<Rightarrow> Inl TypeError)
      else Inr [])"

text \<open>The number of distinct grouping keys of a frame.\<close>

definition distinct_keys :: "agg_row list \<Rightarrow> cell list" where
  "distinct_keys df = remdups (map groupby_col df)"

text \<open>The example of the specification: museum 1, count 3 on day 0 and count 5 on day 2.\<close>

definition example_df :: "agg_row list" where
  "example_df = [\<lparr>timedelta_col = 0, groupby_col = Num 1, count_col = Num 3\<rparr>,
                 \<lparr>timedelta_col = 2, groupby_col = Num 1, count_col = Num 5\<rparr>]"

subsection \<open>extract_features (lines 62-139)\<close>

text \<open>
  The two inputs: the location table and the visit log. The card identifier
  \<^verbatim>\<open>user_id\<close> may be null (\<open>None\<close>); \<^verbatim>\<open>entry_time\<close> is the parsed timestamp in
  nanoseconds.
\<close>

record location =
  loc_museum_id :: int
  loc_museum_name :: string
  loc_short_name :: string
  loc_latitude :: rat
  loc_longitude :: rat

record visit =
  user_id :: "string option"
  museum_id :: int
  museum_name :: string
  entry_time :: int
  total_adults :: int
  minors :: int

record merged_row = visit +
  short_name :: string
  latitude :: rat
  longitude :: rat

record featured_row = merged_row +
  time :: int
  date :: int
  hour :: int
  day_of_week :: int
  total_people :: int
  time_since_previous_museum :: "rat option"
  total_duration_card_use :: "rat option"
  entry_is_adult :: int
  is_card_with_minors :: int

record counted_row = featured_row +
  entrances_per_card_per_museum :: nat

record output_row = counted_row +
  is_in_museum :: "(int \<times> int) list"

text \<open>
  The returned frame: its indicator columns (\<^verbatim>\<open>is_in_museum_n\<close> is the entry \<open>n\<close>) and
  its rows. A frame without rows still has its columns.
\<close>

record frame =
  indicator_columns :: "int list"
  rows :: "output_row list"

text \<open>Line 104: the inner merge with the location table on the identifier and the name.\<close>

definition merge_locations :: "location list \<Rightarrow> visit list \<Rightarrow> merged_row list" where
  "merge_locations df_locations df =
     concat (map (\<lambda>l. map (\<lambda>v. \<lparr>user_id = user_id v, museum_id = museum_id v,
                                   museum_name = museum_name v, entry_time = entry_time v,
                                   total_adults = total_adults v, minors = minors v,
                                   short_name = loc_short_name l, latitude = loc_latitude l,
                                   longitude = loc_longitude l\<rparr>)
                          (filter (\<lambda>v. museum_id v = loc_museum_id l
                                       \<and> museum_name v = loc_museum_name l) df))
                 df_locations)"

definition hour_ns :: int where
  "hour_ns = 3600000000000"

text \<open>
  Float64 arithmetic. A finite float64 is the rational number it stands for. The
  operations round to the nearest value with 53 significant bits, ties to the even one;
  the range of the exponent is not bounded here (the quotients below, of 64-bit numbers
  of nanoseconds by the nanoseconds of an hour, are far from its ends).
\<close>

text \<open>The number of binary digits of a positive integer.\<close>

function bit_length :: "int \<Rightarrow> nat" where
  "bit_length n = (if n \<le> 0 then 0 else Suc (bit_length (n div 2)))"
  by pat_completeness auto
termination
  by (relation "measure nat") auto

declare bit_length.simps [simp del]

text \<open>The integer nearest to \<open>n / d\<close>, a tie going to the even one (\<open>0 \<le> n\<close>, \<open>0 < d\<close>).\<close>

definition round_half_even_div :: "int \<Rightarrow> int \<Rightarrow> int" where
  "round_half_even_div n d =
     (let q = n div d; r = n mod d
      in if 2 * r < d then q else if d < 2 * r then q + 1 else if even q then q else q + 1)"

text \<open>The exponent \<open>k\<close> with \<open>2 ^ k \<le> n / d < 2 ^ (k + 1)\<close> (\<open>0 < n\<close>, \<open>0 < d\<close>).\<close>

definition floor_log2_quot :: "int \<Rightarrow> int \<Rightarrow> int" where
  "floor_log2_quot n d =
     (let k = int (bit_length n) - int (bit_length d)
      in if (if 0 \<le> k then d * 2 ^ nat k \<le> n else d \<le> n * 2 ^ nat (- k)) then k
         else k - 1)"

text \<open>The float64 nearest to the quotient \<open>n / d\<close> of two integers (\<open>0 < d\<close>).\<close>

definition double_quot :: "int \<Rightarrow> int \<Rightarrow> rat" where
  "double_quot n d =
     (if n = 0 then 0
      else let e = floor_log2_quot \<bar>n\<bar> d - 52;
               m = (if e \<le> 0 then round_half_even_div (\<bar>n\<bar> * 2 ^ nat (- e)) d
                    else round_half_even_div \<bar>n\<bar> (d * 2 ^ nat e))
           in if 0 \<le> e then of_int (sgn n * m * 2 ^ nat e)
              else of_int (sgn n * m) / of_int (2 ^ nat (- e)))"

text \<open>The conversion of an integer to float64, again an integer.\<close>

definition int_to_double :: "int \<Rightarrow> int" where
  "int_to_double n =
     (let l = bit_length \<bar>n\<bar>
      in if l \<le> 53 then n
         else sgn n * round_half_even_div \<bar>n\<bar> (2 ^ (l - 53)) * 2 ^ (l - 53))"

text \<open>The float64 sum of two float64 values, and of a list of them from the left.\<close>

definition double_add :: "rat \<Rightarrow> rat \<Rightarrow> rat" where
  "double_add a b = (case quotient_of (a + b) of (p, q) \<Rightarrow> double_quot p q)"

definition double_sum :: "rat list \<Rightarrow> rat" where
  "double_sum xs = foldl double_add 0 xs"

definition day_ns :: int where
  "day_ns = 86400000000000"

text \<open>
  Lines 118 and 124: \<^verbatim>\<open>pd.Timedelta(x) / pd.Timedelta('1 hour')\<close>. The division of
  Timedeltas converts both numbers of nanoseconds to float64 and divides them as such;
  the nanoseconds of an hour are a float64 as they are.
\<close>

definition in_hours :: "int \<Rightarrow> rat" where
  "in_hours x = double_quot (int_to_double x) hour_ns"

text \<open>
  Line 116: \<^verbatim>\<open>df.groupby('user_id')['entry_time'].diff()\<close>, one pass over the frame
  in its row order. \<open>prev\<close> holds, for each card, the timestamp of its latest row so
  far. A row with a null card belongs to no group and gets the missing value, as does
  the first row of each card.
\<close>

fun group_diff :: "(string \<rightharpoonup> int) \<Rightarrow> merged_row list \<Rightarrow> int option list" where
  "group_diff prev [] = []"
| "group_diff prev (r # rs) =
     (case user_id r of
        None \<Rightarrow> None # group_diff prev rs
      | Some u \<Rightarrow>
          (case prev u of None \<Rightarrow> None | Some p \<Rightarrow> Some (entry_time r - p))
          # group_diff (prev(u \<mapsto> entry_time r)) rs)"

text \<open>Line 122: \<^verbatim>\<open>x.iat[-1] - x.iat[0]\<close>; \<^verbatim>\<open>iat\<close> raises on an empty series.\<close>

definition iat_span :: "int list \<Rightarrow> error + int" where
  "iat_span x = (case x of [] \<Rightarrow> Inl IndexError | _ # _ \<Rightarrow> Inr (last x - hd x))"

fun sequence :: "(error + 'a) list \<Rightarrow> error + 'a list" where
  "sequence [] = Inr []"
| "sequence (x # xs) =
     (case x of
        Inl e \<Rightarrow> Inl e
      | Inr v \<Rightarrow> (case sequence xs of Inl e \<Rightarrow> Inl e | Inr vs \<Rightarrow> Inr (v # vs)))"

text \<open>
  Lines 121-122: the rows with a card are grouped by card and every row receives the
  span of its group; the rows with a null card are outside the transformed frame and
  get the missing value when the column is assigned.
\<close>

definition transform_span :: "merged_row list \<Rightarrow> error + int option list" where
  "transform_span df =
     sequence (map (\<lambda>r. case user_id r of
                           None \<Rightarrow> Inr None
                         | Some u \<Rightarrow>
                             (case iat_span (map entry_time
                                               (filter (\<lambda>x. user_id x = Some u) df)) of
                                Inl e \<Rightarrow> Inl e
                              | Inr d \<Rightarrow> Inr (Some d))) df)"

text \<open>
  Lines 106-127: the derived columns of one row, given its gap and the span of its card. The epoch,
  day 0, is a Thursday, and Monday is day 0 of the week.
\<close>

definition with_features :: "merged_row \<Rightarrow> int option \<Rightarrow> int option \<Rightarrow> featured_row" where
  "with_features r gap dur =
     \<lparr>user_id = user_id r, museum_id = museum_id r, museum_name = museum_name r,
      entry_time = entry_time r, total_adults = total_adults r, minors = minors r,
      short_name = short_name r, latitude = latitude r, longitude = longitude r,
      time = entry_time r mod day_ns,
      date = entry_time r div day_ns,
      hour = (entry_time r div hour_ns) mod 24,
      day_of_week = (entry_time r div day_ns + 3) mod 7,
      total_people = total_adults r + minors r,
      time_since_previous_museum = map_option in_hours gap,
      total_duration_card_use = map_option in_hours dur,
      entry_is_adult = (if total_adults r = 1 then 1 else 0),
      is_card_with_minors = (if minors r = 1 then 1 else 0)\<rparr>"

text \<open>
  Lines 129-130: the visits per card and museum. \<^verbatim>\<open>groupby\<close> leaves out the rows with
  a null card. (pandas lists the pairs by card and then by falling count; here they are
  in the order of their last rows.)
\<close>

definition value_counts :: "featured_row list \<Rightarrow> (string \<times> int \<times> nat) list" where
  "value_counts df =
     map (\<lambda>(u, m). (u, m, length (filter (\<lambda>r. user_id r = Some u \<and> museum_id r = m) df)))
         (remdups (List.map_filter (\<lambda>r. map_option (\<lambda>u. (u, museum_id r)) (user_id r)) df))"

definition with_count :: "nat \<Rightarrow> featured_row \<Rightarrow> counted_row" where
  "with_count c r =
     \<lparr>user_id = user_id r, museum_id = museum_id r, museum_name = museum_name r,
      entry_time = entry_time r, total_adults = total_adults r, minors = minors r,
      short_name = short_name r, latitude = latitude r, longitude = longitude r,
      time = time r, date = date r, hour = hour r, day_of_week = day_of_week r,
      total_people = total_people r,
      time_since_previous_museum = time_since_previous_museum r,
      total_duration_card_use = total_duration_card_use r,
      entry_is_adult = entry_is_adult r, is_card_with_minors = is_card_with_minors r,
      entrances_per_card_per_museum = c\<rparr>"

text \<open>Line 132: the inner merge of the counts with the frame on the card and the museum.\<close>

definition merge_counts ::
  "(string \<times> int \<times> nat) list \<Rightarrow> featured_row list \<Rightarrow> counted_row list" where
  "merge_counts counts df =
     concat (map (\<lambda>(u, m, c). map (with_count c)
                                   (filter (\<lambda>r. user_id r = Some u \<and> museum_id r = m) df))
                 counts)"

text \<open>Line 134: \<^verbatim>\<open>df['museum_id'].nunique()\<close> and \<^verbatim>\<open>range(1, ...)\<close>.\<close>

definition nunique :: "counted_row list \<Rightarrow> nat" where
  "nunique df = length (remdups (map museum_id df))"

definition indicator_range :: "nat \<Rightarrow> int list" where
  "indicator_range k = [1..int k - 1]"

text \<open>Line 135: \<^verbatim>\<open>np.where(df['museum_id'] == n, 1, 0)\<close> for each column.\<close>

definition with_indicators :: "int list \<Rightarrow> counted_row \<Rightarrow> output_row" where
  "with_indicators cols r =
     \<lparr>user_id = user_id r, museum_id = museum_id r, museum_name = museum_name r,
      entry_time = entry_time r, total_adults = total_adults r, minors = minors r,
      short_name = short_name r, latitude = latitude r, longitude = longitude r,
      time = time r, date = date r, hour = hour r, day_of_week = day_of_week r,
      total_people = total_people r,
      time_since_previous_museum = time_since_previous_museum r,
      total_duration_card_use = total_duration_card_use r,
      entry_is_adult = entry_is_adult r, is_card_with_minors = is_card_with_minors r,
      entrances_per_card_per_museum = entrances_per_card_per_museum r,
      is_in_museum = map (\<lambda>n. (n, if museum_id r = n then 1 else 0)) cols\<rparr>"

text \<open>
  Lines 112-127 on the merged frame: sort by timestamp (the model sorts stably; line
  120 sorts the sorted frame again), then add the columns.
\<close>

definition add_features :: "merged_row list \<Rightarrow> error + featured_row list" where
  "add_features df =
     (let sorted_df = sort_key entry_time df;
          gaps = group_diff Map.empty sorted_df
      in case transform_span sorted_df of
           Inl e \<Rightarrow> Inl e
         | Inr spans \<Rightarrow>
             Inr (map (\<lambda>(r, gap, dur). with_features r gap dur)
                      (zip sorted_df (zip gaps spans))))"

text \<open>
  The function, from the two frames read at lines 94-102 to the returned frame. Reading
  and exporting files are outside the model.
\<close>

definition extract_features :: "location list \<Rightarrow> visit list \<Rightarrow> error + frame" where
  "extract_features df_locations df =
     (case add_features (merge_locations df_locations df) of
        Inl e \<Rightarrow> Inl e
      | Inr feat \<Rightarrow>
          (let counted = merge_counts (value_counts feat) feat;
               cols = indicator_range (nunique counted)
           in Inr \<lparr>indicator_columns = cols, rows = map (with_indicators cols) counted\<rparr>))"

text \<open>The rows of one card, and the defined gaps among some rows.\<close>

definition card_rows :: "string \<Rightarrow> output_row list \<Rightarrow> output_row list" where
  "card_rows u df = filter (\<lambda>r. user_id r = Some u) df"

definition defined_gaps :: "output_row list \<Rightarrow> rat list" where
  "defined_gaps df = List.map_filter time_since_previous_museum df"

text \<open>
  The differences of consecutive entries of a list of timestamps, as Timedeltas
  (nanoseconds) and in hours.
\<close>

fun consecutive_diffs :: "int list \<Rightarrow> int list" where
  "consecutive_diffs (a # b # ts) = (b - a) # consecutive_diffs (b # ts)"
| "consecutive_diffs _ = []"

fun consecutive_gaps :: "int list \<Rightarrow> rat list" where
  "consecutive_gaps (a # b # ts) = in_hours (b - a) # consecutive_gaps (b # ts)"
| "consecutive_gaps _ = []"

subsection \<open>get_museum_entries_per_timedelta_and_plot (lines 173-237)\<close>

text \<open>
  The body of the loop of line 186, for one museum name; \<open>columns\<close> are the names of
  the columns of the frame. Line 193 reads the column \<^verbatim>\<open>'short_name'\<close> unless the name is
  \<^verbatim>\<open>'All Museums'\<close>, and line 197 groups by \<^verbatim>\<open>['museum_id', 'short_name', timedelta]\<close>;
  either raises \<^verbatim>\<open>KeyError\<close> when a column is missing. The statement of line 197 ends with its closing
  parenthesis, so line 198 is a statement of its own, the expression
  \<^verbatim>\<open>['entrances_per_card_per_museum'].sum()\<close> on a list, which raises
  \<^verbatim>\<open>AttributeError\<close>. Nothing after line 198 is reached. The messages printed at lines
  189-190 and the errors of the regular-expression search of line 193 are not modelled.
\<close>

type_synonym museum_dfs = "(string \<times> agg_row list) list"

fun museum_loop :: "string list \<Rightarrow> string \<Rightarrow> string list \<Rightarrow> error + museum_dfs" where
  "museum_loop columns timedelta [] = Inr []"
| "museum_loop columns timedelta (name # rest) =
     (if name \<noteq> ''All Museums'' \<and> ''short_name'' \<notin> set columns then Inl KeyError
      else if \<not> set [''museum_id'', ''short_name'', timedelta] \<subseteq> set columns then Inl KeyError
      else Inl AttributeError)"

text \<open>
  The function, with the state it works on made explicit: the list object
  \<^verbatim>\<open>museum_list\<close> of the caller and standard input. It returns its result (or the
  exception), the list object after the call and the remaining input. Line 179 comes
  first; line 184 appends to the list object itself; the loop runs over the copy
  \<^verbatim>\<open>museum_list[:]\<close>.
\<close>

definition get_museum_entries_per_timedelta_and_plot ::
  "nat \<Rightarrow> string list \<Rightarrow> string list \<Rightarrow> string \<Rightarrow> int option \<Rightarrow> int option \<Rightarrow> string list
     \<Rightarrow> (error + museum_dfs) \<times> string list \<times> string list" where
  "get_museum_entries_per_timedelta_and_plot depth columns museum_list timedelta start_date
       end_date stdin =
     (case get_timedelta_range depth columns timedelta start_date end_date stdin of
        (Inl e, stdin') \<Rightarrow> (Inl e, museum_list, stdin')
      | (Inr (timedelta_range, timeunit), stdin') \<Rightarrow>
          (let museum_list' = museum_list @ [''All Museums'']
           in (museum_loop columns timedelta museum_list', museum_list', stdin')))"

definition museum_list_after :: "(error + museum_dfs) \<times> string list \<times> string list \<Rightarrow> string list" where
  "museum_list_after outcome = fst (snd outcome)"

text \<open>
  \<open>n\<close> calls in a row on the same list object, the caller catching the exception of
  each.
\<close>

fun repeated_calls ::
  "nat \<Rightarrow> nat \<Rightarrow> string list \<Rightarrow> string list \<Rightarrow> string \<Rightarrow> int option \<Rightarrow> int option
     \<Rightarrow> string list \<Rightarrow> string list \<times> string list" where
  "repeated_calls 0 depth columns museum_list timedelta start_date end_date stdin =
     (museum_list, stdin)"
| "repeated_calls (Suc n) depth columns museum_list timedelta start_date end_date stdin =
     (case get_museum_entries_per_timedelta_and_plot depth columns museum_list timedelta
             start_date end_date stdin of
        (_, museum_list', stdin') \<Rightarrow>
          repeated_calls n depth columns museum_list' timedelta start_date end_date stdin')"

subsection \<open>get_correlation_matrix (lines 272-311)\<close>

text \<open>
  A float64 value, with the comparisons of IEEE 754: every comparison with the
  not-a-number value is false.
\<close>

datatype float64 = Finite rat | PosInf | NegInf | NotANumber

fun float_gt :: "float64 \<Rightarrow> float64 \<Rightarrow> bool" where
  "float_gt (Finite a) (Finite b) \<longleftrightarrow> b < a"
| "float_gt PosInf (Finite b) \<longleftrightarrow> True"
| "float_gt PosInf NegInf \<longleftrightarrow> True"
| "float_gt (Finite a) NegInf \<longleftrightarrow> True"
| "float_gt _ _ \<longleftrightarrow> False"

definition float_lt :: "float64 \<Rightarrow> float64 \<Rightarrow> bool" where
  "float_lt a b \<longleftrightarrow> float_gt b a"

definition float_le :: "float64 \<Rightarrow> float64 \<Rightarrow> bool" where
  "float_le a b \<longleftrightarrow> float_lt a b \<or> (a = b \<and> a \<noteq> NotANumber)"

fun isfinite :: "float64 \<Rightarrow> bool" where
  "isfinite (Finite a) \<longleftrightarrow> True"
| "isfinite _ \<longleftrightarrow> False"

text \<open>The time series: one row per granularity bucket and museum.\<close>

record series_row =
  cm_timedelta :: int
  series_museum_id :: int
  total_entries :: int

text \<open>
  Line 281: the pivot. It raises \<^verbatim>\<open>ValueError\<close> when a pair of bucket and museum occurs
  twice. The result has one column per museum, in the order of the identifiers, with
  one entry (missing or not) per bucket.
\<close>

definition pivot :: "series_row list \<Rightarrow> error + (int \<times> int option list) list" where
  "pivot df =
     (if \<not> distinct (map (\<lambda>r. (cm_timedelta r, series_museum_id r)) df) then Inl ValueError
      else Inr (map (\<lambda>c. (c, map (\<lambda>t. map_option total_entries
                                           (find (\<lambda>r. cm_timedelta r = t
                                                      \<and> series_museum_id r = c) df))
                                 (sort (remdups (map cm_timedelta df)))))
                    (sort (remdups (map series_museum_id df)))))"

text \<open>
  Line 282: \<^verbatim>\<open>df.corr(corr_method).stack()\<close>. The coefficient of two columns is computed
  by the library; \<open>corr_method\<close> is that function. \<^verbatim>\<open>stack\<close> leaves out the missing
  entries.
\<close>

definition corr_stack ::
  "(int option list \<Rightarrow> int option list \<Rightarrow> float64) \<Rightarrow> (int \<times> int option list) list
     \<Rightarrow> (int \<times> int \<times> float64) list" where
  "corr_stack corr_method table =
     concat (map (\<lambda>(c1, x1). concat (map (\<lambda>(c2, x2).
                    (if corr_method x1 x2 = NotANumber then []
                     else [(c1, c2, corr_method x1 x2)])) table)) table)"

text \<open>
  Lines 285-296 and 286-306: the entries beyond a threshold, of them the finite ones,
  of them those whose two museums are in \<open>lst\<close>.
\<close>

definition select_pairs ::
  "(float64 \<Rightarrow> bool) \<Rightarrow> int list \<Rightarrow> (int \<times> int \<times> float64) list \<Rightarrow> (int \<times> int \<times> float64) list" where
  "select_pairs beyond lst corr_matrix =
     filter (\<lambda>(c1, c2, v). c1 \<in> set lst \<and> c2 \<in> set lst)
       (filter (\<lambda>(c1, c2, v). isfinite v)
          (filter (\<lambda>(c1, c2, v). beyond v) corr_matrix))"

definition get_correlation_matrix ::
  "series_row list \<Rightarrow> int list \<Rightarrow> (int option list \<Rightarrow> int option list \<Rightarrow> float64) \<Rightarrow> bool
     \<Rightarrow> int \<Rightarrow> int \<Rightarrow> float64 \<Rightarrow> float64
     \<Rightarrow> error + (int \<times> int \<times> float64) list \<times> (int \<times> int \<times> float64) list
               \<times> (int \<times> int \<times> float64) list" where
  "get_correlation_matrix df lst corr_method timedelta_subset timedeltamin timedeltamax
       below_threshold above_threshold =
     (let df1 = (if timedelta_subset
                 then filter (\<lambda>r. timedeltamin \<le> cm_timedelta r \<and> cm_timedelta r \<le> timedeltamax) df
                 else df)
      in case pivot df1 of
           Inl e \<Rightarrow> Inl e
         | Inr table \<Rightarrow>
             (let m = corr_stack corr_method table;
                  corr_matrix = filter (\<lambda>(c1, c2, v). c1 \<noteq> c2) m;
                  high_corr = select_pairs (\<lambda>v. float_gt v above_threshold) lst corr_matrix;
                  inverse_corr = select_pairs (\<lambda>v. float_lt v below_threshold) lst corr_matrix
              in Inr (m, high_corr, inverse_corr)))"

definition museum_pair :: "int \<times> int \<times> float64 \<Rightarrow> int \<times> int" where
  "museum_pair e = (fst e, fst (snd e))"

definition coefficient :: "int \<times> int \<times> float64 \<Rightarrow> float64" where
  "coefficient e = snd (snd e)"

subsection \<open>Auxiliary notions for the properties\<close>

text \<open>A frame that is a full grid for museum 1 over the days of the week.\<close>

definition full_week_df :: "agg_row list" where
  "full_week_df =
     map (\<lambda>d. \<lparr>timedelta_col = d, groupby_col = Num 1, count_col = Num 2\<rparr>) [0, 1, 2, 3, 4, 5, 6]"

text \<open>Rows whose grouping cell is the builtin \<^verbatim>\<open>id\<close>, with count 0.\<close>

definition id_rows :: "int list \<Rightarrow> agg_row list" where
  "id_rows buckets =
     map (\<lambda>i. \<lparr>timedelta_col = i, groupby_col = Builtin_id, count_col = Num 0\<rparr>) buckets"

text \<open>The differences of a list of timestamps, the first one taken from \<open>p\<close>.\<close>

fun diffs_from :: "int option \<Rightarrow> int list \<Rightarrow> int option list" where
  "diffs_from p [] = []"
| "diffs_from p (t # ts) = map_option (\<lambda>q. t - q) p # diffs_from (Some t) ts"

text \<open>The span of the card of a row: last minus first timestamp of that card.\<close>

definition card_span :: "merged_row list \<Rightarrow> merged_row \<Rightarrow> int option" where
  "card_span df r =
     (case user_id r of
        None \<Rightarrow> None
      | Some u \<Rightarrow> (let ts = map entry_time (filter (\<lambda>x. user_id x = Some u) df)
                 in Some (last ts - hd ts)))"

text \<open>A small time series and a coefficient function, for a concrete instance.\<close>

definition example_series :: "series_row list" where
  "example_series =
     [\<lparr>cm_timedelta = 0, series_museum_id = 1, total_entries = 1\<rparr>,
      \<lparr>cm_timedelta = 0, series_museum_id = 2, total_entries = 2\<rparr>,
      \<lparr>cm_timedelta = 1, series_museum_id = 2, total_entries = 5\<rparr>,
      \<lparr>cm_timedelta = 0, series_museum_id = 3, total_entries = 7\<rparr>]"

definition example_corr :: "int option list \<Rightarrow> int option list \<Rightarrow> float64" where
  "example_corr x y =
     (if x = y then Finite 1
      else if hd x = Some 1 \<or> hd y = Some 1 then Finite (- 1 / 2)
      else Finite (1 / 2))"

text \<open>
  The frame after line 127 in closed form, the key and the count of a row in the merge
  of line 132, the columns added to a row from line 129 on, and the timestamps of one
  card in the sorted frame.
\<close>

definition pair_key :: "featured_row \<Rightarrow> (string \<times> int) option" where
  "pair_key r = map_option (\<lambda>u. (u, museum_id r)) (user_id r)"

definition pair_count :: "featured_row list \<Rightarrow> featured_row \<Rightarrow> nat" where
  "pair_count df r =
     length (filter (\<lambda>x. user_id x = user_id r \<and> museum_id x = museum_id r) df)"

definition featured :: "merged_row list \<Rightarrow> featured_row list" where
  "featured df =
     map (\<lambda>(r, gap). with_features r gap (card_span (sort_key entry_time df) r))
         (zip (sort_key entry_time df) (group_diff Map.empty (sort_key entry_time df)))"

definition finish :: "featured_row list \<Rightarrow> int list \<Rightarrow> featured_row \<Rightarrow> output_row" where
  "finish df cols r = with_indicators cols (with_count (pair_count df r) r)"

definition card_times :: "string \<Rightarrow> merged_row list \<Rightarrow> int list" where
  "card_times u df = map entry_time (filter (\<lambda>r. user_id r = Some u) (sort_key entry_time df))"

text \<open>A visit log with two cards and one visit without a card, and its frame.\<close>

definition example_locations :: "location list" where
  "example_locations =
     [\<lparr>loc_museum_id = 1, loc_museum_name = ''Uffizi'', loc_short_name = ''U'',
       loc_latitude = 43, loc_longitude = 11\<rparr>,
      \<lparr>loc_museum_id = 2, loc_museum_name = ''Pitti'', loc_short_name = ''P'',
       loc_latitude = 43, loc_longitude = 11\<rparr>]"

definition example_visits :: "visit list" where
  "example_visits =
     [\<lparr>user_id = Some ''A'', museum_id = 1, museum_name = ''Uffizi'',
       entry_time = 3600000000000, total_adults = 1, minors = 0\<rparr>,
      \<lparr>user_id = None, museum_id = 1, museum_name = ''Uffizi'',
       entry_time = 7200000000000, total_adults = 1, minors = 0\<rparr>,
      \<lparr>user_id = Some ''A'', museum_id = 2, museum_name = ''Pitti'',
       entry_time = 10800000000000, total_adults = 1, minors = 0\<rparr>,
      \<lparr>user_id = Some ''B'', museum_id = 2, museum_name = ''Pitti'',
       entry_time = 14400000000000, total_adults = 2, minors = 1\<rparr>,
      \<lparr>user_id = Some ''A'', museum_id = 1, museum_name = ''Uffizi'',
       entry_time = 21600000000000, total_adults = 1, minors = 0\<rparr>]"


definition example_frame :: frame where
  "example_frame =
     \<lparr>indicator_columns = [1],
      rows =
        [\<lparr>user_id = Some ''A'', museum_id = 2, museum_name = ''Pitti'',
          entry_time = 10800000000000, total_adults = 1, minors = 0,
          short_name = ''P'', latitude = 43, longitude = 11,
          time = 10800000000000, date = 0, hour = 3, day_of_week = 3,
          total_people = 1, time_since_previous_museum = Some 2,
          total_duration_card_use = Some 5, entry_is_adult = 1,
          is_card_with_minors = 0, entrances_per_card_per_museum = 1,
          is_in_museum = [(1, 0)]\<rparr>,
         \<lparr>user_id = Some ''B'', museum_id = 2, museum_name = ''Pitti'',
          entry_time = 14400000000000, total_adults = 2, minors = 1,
          short_name = ''P'', latitude = 43, longitude = 11,
          time = 14400000000000, date = 0, hour = 4, day_of_week = 3,
          total_people = 3, time_since_previous_museum = None,
          total_duration_card_use = Some 0, entry_is_adult = 0,
          is_card_with_minors = 1, entrances_per_card_per_museum = 1,
          is_in_museum = [(1, 0)]\<rparr>,
         \<lparr>user_id = Some ''A'', museum_id = 1, museum_name = ''Uffizi'',
          entry_time = 3600000000000, total_adults = 1, minors = 0,
          short_name = ''U'', latitude = 43, longitude = 11,
          time = 3600000000000, date = 0, hour = 1, day_of_week = 3,
          total_people = 1, time_since_previous_museum = None,
          total_duration_card_use = Some 5, entry_is_adult = 1,
          is_card_with_minors = 0, entrances_per_card_per_museum = 2,
          is_in_museum = [(1, 1)]\<rparr>,
         \<lparr>user_id = Some ''A'', museum_id = 1, museum_name = ''Uffizi'',
          entry_time = 21600000000000, total_adults = 1, minors = 0,
          short_name = ''U'', latitude = 43, longitude = 11,
          time = 21600000000000, date = 0, hour = 6, day_of_week = 3,
          total_people = 1, time_since_previous_museum = Some 3,
          total_duration_card_use = Some 5, entry_is_adult = 1,
          is_card_with_minors = 0, entrances_per_card_per_museum = 2,
          is_in_museum = [(1, 1)]\<rparr>]\<rparr>"

text \<open>A log whose museums are numbered from 0.\<close>

definition zero_locations :: "location list" where
  "zero_locations =
     [\<lparr>loc_museum_id = 0, loc_museum_name = ''Bargello'', loc_short_name = ''B'',
       loc_latitude = 43, loc_longitude = 11\<rparr>,
      \<lparr>loc_museum_id = 1, loc_museum_name = ''Uffizi'', loc_short_name = ''U'',
       loc_latitude = 43, loc_longitude = 11\<rparr>]"

definition zero_visits :: "visit list" where
  "zero_visits =
     [\<lparr>user_id = Some ''A'', museum_id = 0, museum_name = ''Bargello'',
       entry_time = 3600000000000, total_adults = 1, minors = 0\<rparr>,
      \<lparr>user_id = Some ''A'', museum_id = 1, museum_name = ''Uffizi'',
       entry_time = 7200000000000, total_adults = 1, minors = 0\<rparr>]"

definition highest_museum_id :: "frame \<Rightarrow> int" where
  "highest_museum_id out = Max (museum_id ` set (rows out))"

text \<open>
  One card with visits at 10:00, 10:06 and 10:18 of the first day, and its frame. The
  gaps are the float64 values of 0.1 and 0.2, the duration that of 0.3.
\<close>

definition minute_visits :: "visit list" where
  "minute_visits =
     [\<lparr>user_id = Some ''A'', museum_id = 1, museum_name = ''Uffizi'',
       entry_time = 36000000000000, total_adults = 1, minors = 0\<rparr>,
      \<lparr>user_id = Some ''A'', museum_id = 1, museum_name = ''Uffizi'',
       entry_time = 36360000000000, total_adults = 1, minors = 0\<rparr>,
      \<lparr>user_id = Some ''A'', museum_id = 1, museum_name = ''Uffizi'',
       entry_time = 37080000000000, total_adults = 1, minors = 0\<rparr>]"

definition minute_frame :: frame where
  "minute_frame =
     \<lparr>indicator_columns = [],
      rows =
        [\<lparr>user_id = Some ''A'', museum_id = 1, museum_name = ''Uffizi'',
          entry_time = 36000000000000, total_adults = 1, minors = 0,
          short_name = ''U'', latitude = 43, longitude = 11,
          time = 36000000000000, date = 0, hour = 10, day_of_week = 3,
          total_people = 1, time_since_previous_museum = None,
          total_duration_card_use = Some (5404319552844595 / 18014398509481984),
          entry_is_adult = 1, is_card_with_minors = 0,
          entrances_per_card_per_museum = 3, is_in_museum = []\<rparr>,
         \<lparr>user_id = Some ''A'', museum_id = 1, museum_name = ''Uffizi'',
          entry_time = 36360000000000, total_adults = 1, minors = 0,
          short_name = ''U'', latitude = 43, longitude = 11,
          time = 36360000000000, date = 0, hour = 10, day_of_week = 3,
          total_people = 1,
          time_since_previous_museum = Some (3602879701896397 / 36028797018963968),
          total_duration_card_use = Some (5404319552844595 / 18014398509481984),
          entry_is_adult = 1, is_card_with_minors = 0,
          entrances_per_card_per_museum = 3, is_in_museum = []\<rparr>,
         \<lparr>user_id = Some ''A'', museum_id = 1, museum_name = ''Uffizi'',
          entry_time = 37080000000000, total_adults = 1, minors = 0,
          short_name = ''U'', latitude = 43, longitude = 11,
          time = 37080000000000, date = 0, hour = 10, day_of_week = 3,
          total_people = 1,
          time_since_previous_museum = Some (3602879701896397 / 18014398509481984),
          total_duration_card_use = Some (5404319552844595 / 18014398509481984),
          entry_is_adult = 1, is_card_with_minors = 0,
          entrances_per_card_per_museum = 3, is_in_museum = []\<rparr>]\<rparr>"

text \<open>
  The sum of the defined gaps of a card, exact and in float64, and the durations on its
  rows.
\<close>

definition card_gap_sum :: "string \<Rightarrow> frame \<Rightarrow> rat" where
  "card_gap_sum u out = sum_list (defined_gaps (card_rows u (rows out)))"

definition card_gap_double_sum :: "string \<Rightarrow> frame \<Rightarrow> rat" where
  "card_gap_double_sum u out = double_sum (defined_gaps (card_rows u (rows out)))"

definition card_durations :: "string \<Rightarrow> frame \<Rightarrow> rat option list" where
  "card_durations u out = map total_duration_card_use (card_rows u (rows out))"

text \<open>The columns of a frame returned by \<^verbatim>\<open>extract_features\<close> for two museums.\<close>

definition example_columns :: "string list" where
  "example_columns =
     [''user_id'', ''museum_id'', ''museum_name'', ''entry_time'', ''total_adults'', ''minors'',
      ''short_name'', ''latitude'', ''longitude'', ''time'', ''date'', ''hour'', ''day_of_week'',
      ''total_people'', ''time_since_previous_museum'', ''total_duration_card_use'',
      ''entry_is_adult'', ''is_card_with_minors'', ''entrances_per_card_per_museum'',
      ''is_in_museum_1'']"

section \<open>Properties\<close>

subsection \<open>Interpolation\<close>

lemmas interpolate_defs = interpolate_on_timedelta_def example_df_def grid_data_def
  py_range_def merge_outer_def fillna_def fill0_def same_key_def upto.simps id_rows_def
  full_week_df_def full_id_days_def merge_right_def distinct_keys_def

text \<open>
  For the hourly and the weekly granularity, on a frame whose keys are museum
  identifiers: no row of the grid of line 151 matches a row of the input, so the result
  is the grid, keyed by the builtin \<^verbatim>\<open>id\<close>, followed by the input.
\<close>

lemma no_match_with_id:
  assumes "\<forall>r \<in> set df. groupby_col r \<noteq> Builtin_id"
  shows "filter (same_key \<lparr>timedelta_col = i, groupby_col = Builtin_id\<rparr>) df = []"
  using assms by (auto simp: filter_empty_conv same_key_def)

lemma merge_outer_grid:
  assumes "\<forall>r \<in> set df. groupby_col r \<noteq> Builtin_id"
  shows "merge_outer (grid_data n) df =
           map (\<lambda>i. \<lparr>timedelta_col = i, groupby_col = Builtin_id, count_col = NaN\<rparr>) (py_range n)
           @ df"
proof -
  have "filter (\<lambda>r. \<not> list_ex (\<lambda>l. same_key l r) (grid_data n)) df = df"
    using assms by (auto simp: filter_id_conv list_ex_iff grid_data_def same_key_def)
  moreover have "concat (map (\<lambda>l. case filter (same_key l) df of
                         [] \<Rightarrow> [\<lparr>timedelta_col = timedelta_col l, groupby_col = groupby_col l,
                                 count_col = NaN\<rparr>]
                       | m # ms \<Rightarrow> m # ms) (grid_data n))
        = map (\<lambda>i. \<lparr>timedelta_col = i, groupby_col = Builtin_id, count_col = NaN\<rparr>) (py_range n)"
    by (induction "py_range n" arbitrary: n)
       (simp_all add: grid_data_def no_match_with_id [OF assms] o_def concat_map_singleton)
  ultimately show ?thesis by (simp add: merge_outer_def)
qed

lemma interpolate_rows:
  assumes "\<forall>r \<in> set df. groupby_col r \<noteq> Builtin_id"
    and "timedelta = ''day_of_week'' \<or> timedelta = ''hour''"
  shows "interpolate_on_timedelta df timedelta (IntVal n) timeunit start_date end_date =
           Inr (id_rows (py_range n) @ fillna df)"
  using assms(2)
  by (simp add: interpolate_on_timedelta_def merge_outer_grid [OF assms(1)] id_rows_def
      fillna_def fill0_def o_def)

lemma interpolate_length:
  assumes "\<forall>r \<in> set df. groupby_col r \<noteq> Builtin_id"
    and "timedelta = ''day_of_week'' \<or> timedelta = ''hour''"
  shows "map_sum id length
           (interpolate_on_timedelta df timedelta (IntVal n) timeunit start_date end_date) =
         Inr (nat n + length df)"
  by (simp add: interpolate_rows [OF assms] id_rows_def fillna_def py_range_def)

text \<open>
  Claim C1. The interpolated frame should hold every pair of an observed key and a
  bucket of the domain exactly once, with the observed count or 0. On the example of the
  specification (museum 1 with count 3 on day 0 and count 5 on day 2, days of the week)
  the function returns seven rows whose key is the builtin \<^verbatim>\<open>id\<close>, followed by the two
  rows of the input: museum 1 has no row for the days 1, 3, 4, 5 and 6.
\<close>

theorem interpolate_example_has_no_grid:
  "interpolate_on_timedelta example_df ''day_of_week'' (IntVal 7) EmptyList 0 0 =
     Inr (id_rows [0, 1, 2, 3, 4, 5, 6] @ example_df)"
  by (simp add: interpolate_defs)

text \<open>
  Claim C2. The number of rows should be 24, 7 or the number of days of the window plus
  one, times the number of distinct keys. For the example with its one key the hourly
  frame has 26 rows instead of 24, and for a window of seven days, for which
  \<^verbatim>\<open>get_timedelta_range\<close> returns the range 6, the daily frame has the 2 rows of the
  input instead of 7.
\<close>

theorem interpolate_example_row_counts:
  "map_sum id length (interpolate_on_timedelta example_df ''hour'' (IntVal 24) EmptyList 0 0)
     = Inr 26
   \<and> 24 * length (distinct_keys example_df) = 24
   \<and> get_timedelta_range depth [''date''] ''date'' (Some 0) (Some 6) []
       = (Inr (IntVal 6, StrVal ''D''), [])
   \<and> map_sum id length
        (interpolate_on_timedelta example_df ''date'' (IntVal 6) (StrVal ''D'') 0 6) = Inr 2
   \<and> (6 + 1) * length (distinct_keys example_df) = 7"
  by (simp add: interpolate_defs assign_range_def timedelta_options_def
      get_timedelta_range.simps)

text \<open>
  Claim C4. Interpolating a full grid should return it unchanged as a set of rows. For
  the full grid of museum 1 over the days of the week the function returns the grid and
  seven further rows whose key is the builtin \<^verbatim>\<open>id\<close>.
\<close>

theorem interpolate_full_grid_adds_rows:
  "interpolate_on_timedelta full_week_df ''day_of_week'' (IntVal 7) EmptyList 0 0 =
     Inr (id_rows [0, 1, 2, 3, 4, 5, 6] @ full_week_df)"
  by (simp add: interpolate_defs)

subsection \<open>The museum list\<close>

lemma get_timedelta_range_option:
  "t \<in> set timedelta_options \<Longrightarrow> ''date'' \<in> set columns \<Longrightarrow>
     get_timedelta_range depth columns t (Some s) (Some e) stdin =
       (Inr (assign_range t EmptyFrame EmptyFrame s e), stdin)"
  by (simp add: get_timedelta_range.simps)

lemma museum_list_after_call:
  "museum_list_after
     (get_museum_entries_per_timedelta_and_plot depth columns ml t start_date end_date stdin) =
     (case fst (get_timedelta_range depth columns t start_date end_date stdin) of
        Inl err \<Rightarrow> ml
      | Inr tr \<Rightarrow> ml @ [''All Museums''])"
  by (auto simp: museum_list_after_def get_museum_entries_per_timedelta_and_plot_def Let_def
      split: prod.splits sum.splits)

lemma repeated_calls_option:
  "t \<in> set timedelta_options \<Longrightarrow> ''date'' \<in> set columns \<Longrightarrow>
     repeated_calls n depth columns ml t (Some s) (Some e) stdin =
       (ml @ replicate n ''All Museums'', stdin)"
proof (induction n arbitrary: ml)
  case 0
  then show ?case by simp
next
  case (Suc n)
  have "get_museum_entries_per_timedelta_and_plot depth columns ml t (Some s) (Some e) stdin =
          (museum_loop columns t (ml @ [''All Museums'']), ml @ [''All Museums''], stdin)"
    using Suc.prems
    by (simp add: get_museum_entries_per_timedelta_and_plot_def get_timedelta_range_option
        Let_def split: prod.splits)
  then show ?case
    using Suc by (simp add: replicate_app_Cons_same)
qed

text \<open>
  Claim C10, as amended. A call whose \<^verbatim>\<open>get_timedelta_range\<close> step returns appends
  \<^verbatim>\<open>'All Museums'\<close> to the list object of the caller, whatever happens in the loop
  afterwards; a call in which that step raises leaves the list as it was; and with one
  of the three granularities, a frame that has a column \<^verbatim>\<open>'date'\<close> and two dates that
  pandas accepts, \<open>n\<close> calls in a row append \<open>n\<close> copies.
\<close>

theorem museum_list_grows:
  "(\<forall>tr. fst (get_timedelta_range depth columns timedelta start_date end_date stdin) = Inr tr
      \<longrightarrow>
      museum_list_after (get_museum_entries_per_timedelta_and_plot depth columns museum_list
                           timedelta start_date end_date stdin)
        = museum_list @ [''All Museums''])
   \<and> (\<forall>err. fst (get_timedelta_range depth columns timedelta start_date end_date stdin)
              = Inl err \<longrightarrow>
      museum_list_after (get_museum_entries_per_timedelta_and_plot depth columns museum_list
                           timedelta start_date end_date stdin)
        = museum_list)
   \<and> (timedelta \<in> set timedelta_options \<and> ''date'' \<in> set columns
        \<and> start_date \<noteq> None \<and> end_date \<noteq> None \<longrightarrow>
      fst (repeated_calls n depth columns museum_list timedelta start_date end_date stdin)
        = museum_list @ replicate n ''All Museums'')"
  by (auto simp: museum_list_after_call repeated_calls_option)

theorem museum_list_grows_witness:
  "fst (get_timedelta_range 0 example_columns ''hour'' (Some 0) (Some 6) [])
     = Inr (IntVal 24, EmptyList)
   \<and> museum_list_after (get_museum_entries_per_timedelta_and_plot 0 example_columns
                          [''Uffizi''] ''hour'' (Some 0) (Some 6) [])
       = [''Uffizi'', ''All Museums'']
   \<and> fst (get_timedelta_range 0 example_columns ''week'' (Some 0) (Some 6) []) = Inl EOFError
   \<and> museum_list_after (get_museum_entries_per_timedelta_and_plot 0 example_columns
                          [''Uffizi''] ''week'' (Some 0) (Some 6) [])
       = [''Uffizi'']
   \<and> ''hour'' \<in> set timedelta_options
   \<and> ''date'' \<in> set example_columns
   \<and> fst (repeated_calls 2 0 example_columns [''Uffizi''] ''hour'' (Some 0) (Some 6) [])
       = [''Uffizi'', ''All Museums'', ''All Museums'']"
proof -
  have a: "fst (get_timedelta_range 0 example_columns ''hour'' (Some 0) (Some 6) [])
             = Inr (IntVal 24, EmptyList)"
    and b: "fst (get_timedelta_range 0 example_columns ''week'' (Some 0) (Some 6) [])
             = Inl EOFError"
    and c: "''hour'' \<in> set timedelta_options" and d: "''date'' \<in> set example_columns"
    by (simp_all add: get_timedelta_range.simps timedelta_options_def assign_range_def
        example_columns_def)
  from museum_list_grows [of 0 example_columns "''hour''" "Some 0" "Some 6" "[]" "[''Uffizi'']" 2]
    a c d
  have "museum_list_after (get_museum_entries_per_timedelta_and_plot 0 example_columns
                          [''Uffizi''] ''hour'' (Some 0) (Some 6) [])
       = [''Uffizi'', ''All Museums'']"
    and "fst (repeated_calls 2 0 example_columns [''Uffizi''] ''hour'' (Some 0) (Some 6) [])
       = [''Uffizi'', ''All Museums'', ''All Museums'']"
    by (simp_all add: eval_nat_numeral)
  moreover from museum_list_grows [of 0 example_columns "''week''" "Some 0" "Some 6" "[]"
      "[''Uffizi'']" 0] b
  have "museum_list_after (get_museum_entries_per_timedelta_and_plot 0 example_columns
                          [''Uffizi''] ''week'' (Some 0) (Some 6) [])
       = [''Uffizi'']"
    by simp
  ultimately show ?thesis using a b c d by simp
qed

text \<open>
  The claim as stated fails. On a frame without a column \<^verbatim>\<open>'date'\<close> line 247 raises
  before line 184, and with the unknown granularity \<^verbatim>\<open>'week'\<close> and no input left the
  prompt of line 253 does; in both calls the list is unchanged.
\<close>

theorem museum_list_unchanged_counterexample:
  "get_museum_entries_per_timedelta_and_plot 0 [''museum_id'', ''short_name'', ''hour'']
       [''Uffizi''] ''hour'' (Some 0) (Some 6) []
     = (Inl KeyError, [''Uffizi''], [])
   \<and> get_museum_entries_per_timedelta_and_plot 0 example_columns
       [''Uffizi''] ''week'' (Some 0) (Some 6) []
     = (Inl EOFError, [''Uffizi''], [])"
  by (simp add: get_museum_entries_per_timedelta_and_plot_def get_timedelta_range.simps
      timedelta_options_def example_columns_def)

subsection \<open>Feature extraction\<close>

lemma concat_map_Nil: "concat (map (\<lambda>l. []) xs) = []"
  by (induction xs) auto

text \<open>
  Claim C8. On a visit log without rows \<^verbatim>\<open>extract_features\<close> returns, without raising,
  the frame without rows (and without indicator columns).
\<close>

theorem extract_features_empty:
  "extract_features df_locations [] = Inr \<lparr>indicator_columns = [], rows = []\<rparr>"
  by (simp add: extract_features_def add_features_def merge_locations_def transform_span_def
      value_counts_def merge_counts_def nunique_def indicator_range_def
      concat_map_Nil)

lemmas extract_defs = extract_features_def add_features_def merge_locations_def
  transform_span_def iat_span_def with_features_def value_counts_def with_count_def
  merge_counts_def nunique_def indicator_range_def with_indicators_def in_hours_def
  hour_ns_def day_ns_def double_quot_def int_to_double_def floor_log2_quot_def
  round_half_even_div_def bit_length.simps

lemma example_extract: "extract_features example_locations example_visits = Inr example_frame"
  by (simp add: extract_defs example_locations_def example_visits_def example_frame_def
      upto.simps)

lemma minute_extract: "extract_features example_locations minute_visits = Inr minute_frame"
  by (simp add: extract_defs example_locations_def minute_visits_def minute_frame_def
      upto.simps)

lemma sequence_Inr:
  "(\<And>x. x \<in> set xs \<Longrightarrow> f x = Inr (g x)) \<Longrightarrow> sequence (map f xs) = Inr (map g xs)"
  by (induction xs) auto

lemma transform_span_eq: "transform_span df = Inr (map (card_span df) df)"
  unfolding transform_span_def
proof (rule sequence_Inr)
  fix r assume r: "r \<in> set df"
  show "(case user_id r of None \<Rightarrow> Inr None
         | Some u \<Rightarrow> (case iat_span (map entry_time (filter (\<lambda>x. user_id x = Some u) df)) of
                       Inl e \<Rightarrow> Inl e | Inr d \<Rightarrow> Inr (Some d))) = Inr (card_span df r)"
  proof (cases "user_id r")
    case None
    then show ?thesis by (simp add: card_span_def)
  next
    case (Some u)
    with r have "filter (\<lambda>x. user_id x = Some u) df \<noteq> []"
      by (auto simp: filter_empty_conv)
    then obtain y ys where "filter (\<lambda>x. user_id x = Some u) df = y # ys"
      by (cases "filter (\<lambda>x. user_id x = Some u) df") auto
    with Some show ?thesis by (simp add: card_span_def iat_span_def)
  qed
qed

lemma length_group_diff: "length (group_diff prev rs) = length rs"
  by (induction rs arbitrary: prev) (auto split: option.splits)

lemma zip_zip_map:
  "length ys = length xs \<Longrightarrow> zip xs (zip ys (map f xs)) = map (\<lambda>(x, y). (x, y, f x)) (zip xs ys)"
  by (induction xs ys rule: list_induct2') auto

lemma add_features_eq: "add_features df = Inr (featured df)"
  by (simp add: add_features_def featured_def transform_span_eq zip_zip_map length_group_diff
      Let_def split_def)

lemma group_diff_filter:
  "filter (\<lambda>(r, g). user_id r = Some u) (zip rs (group_diff prev rs)) =
     zip (filter (\<lambda>r. user_id r = Some u) rs)
         (diffs_from (prev u) (map entry_time (filter (\<lambda>r. user_id r = Some u) rs)))"
  by (induction rs arbitrary: prev) (auto split: option.splits)

text \<open>The merge of line 132 keeps, up to order, the rows with a card.\<close>

lemma mset_concat_filter_keys:
  "distinct ks \<Longrightarrow>
     mset (concat (map (\<lambda>k. filter (\<lambda>r. key r = Some k) xs) ks)) =
     mset (filter (\<lambda>r. \<exists>k \<in> set ks. key r = Some k) xs)"
proof (induction ks)
  case Nil
  then show ?case by simp
next
  case (Cons k ks)
  have "mset (filter (\<lambda>r. \<exists>j \<in> set (k # ks). key r = Some j) xs) =
        mset (filter (\<lambda>r. key r = Some k) xs) + mset (filter (\<lambda>r. \<exists>j \<in> set ks. key r = Some j) xs)"
    using Cons.prems by (induction xs) auto
  with Cons show ?case by simp
qed

lemma merge_counts_eq:
  "merge_counts (value_counts df) df =
     map (\<lambda>r. with_count (pair_count df r) r)
         (concat (map (\<lambda>k. filter (\<lambda>r. pair_key r = Some k) df)
                      (remdups (List.map_filter pair_key df))))"
proof -
  have *: "map (with_count (length (filter (\<lambda>r. user_id r = Some u \<and> museum_id r = m) df)))
               (filter (\<lambda>r. user_id r = Some u \<and> museum_id r = m) df) =
           map (\<lambda>r. with_count (pair_count df r) r) (filter (\<lambda>r. pair_key r = Some (u, m)) df)" for u m
  proof -
    have "filter (\<lambda>r. pair_key r = Some (u, m)) df = filter (\<lambda>r. user_id r = Some u \<and> museum_id r = m) df"
      by (rule filter_cong) (auto simp: pair_key_def)
    moreover have "map (with_count (length (filter (\<lambda>r. user_id r = Some u \<and> museum_id r = m) df)))
               (filter (\<lambda>r. user_id r = Some u \<and> museum_id r = m) df) =
           map (\<lambda>r. with_count (pair_count df r) r) (filter (\<lambda>r. user_id r = Some u \<and> museum_id r = m) df)"
      by (rule map_cong) (auto simp: pair_count_def)
    ultimately show ?thesis by simp
  qed
  have pk: "(\<lambda>r. map_option (\<lambda>u. (u, museum_id r)) (user_id r)) = pair_key"
    by (auto simp: pair_key_def fun_eq_iff)
  show ?thesis
    unfolding merge_counts_def value_counts_def pk
    by (simp add: map_concat o_def split_def *)
qed

lemma mset_merge_counts:
  "mset (merge_counts (value_counts df) df) =
     mset (map (\<lambda>r. with_count (pair_count df r) r) (filter (\<lambda>r. user_id r \<noteq> None) df))"
proof -
  have "filter (\<lambda>r. \<exists>k \<in> set (remdups (List.map_filter pair_key df)). pair_key r = Some k) df
        = filter (\<lambda>r. user_id r \<noteq> None) df"
    by (rule filter_cong) (auto simp: pair_key_def List.map_filter_def image_iff)
  then show ?thesis
    by (simp add: merge_counts_eq mset_concat_filter_keys [where key = pair_key])
qed


lemma extract_features_eq:
  "extract_features df_locations df =
     Inr \<lparr>indicator_columns =
            indicator_range (nunique (merge_counts (value_counts (featured (merge_locations df_locations df)))
                                        (featured (merge_locations df_locations df)))),
          rows = map (with_indicators
                        (indicator_range (nunique (merge_counts (value_counts (featured (merge_locations df_locations df)))
                                        (featured (merge_locations df_locations df))))))
                     (merge_counts (value_counts (featured (merge_locations df_locations df)))
                                        (featured (merge_locations df_locations df)))\<rparr>"
  by (simp add: extract_features_def add_features_eq Let_def)

lemma mset_rows:
  assumes "extract_features df_locations df = Inr out"
  shows "mset (rows out) =
           mset (map (finish (featured (merge_locations df_locations df)) (indicator_columns out))
                     (filter (\<lambda>r. user_id r \<noteq> None) (featured (merge_locations df_locations df))))"
proof -
  let ?F = "featured (merge_locations df_locations df)"
  let ?C = "merge_counts (value_counts ?F) ?F"
  from assms have c: "indicator_columns out = indicator_range (nunique ?C)"
    and r: "rows out = map (with_indicators (indicator_columns out)) ?C"
    by (auto simp: extract_features_eq)
  have "mset (rows out) = image_mset (with_indicators (indicator_columns out)) (mset ?C)"
    by (subst r) simp
  also have "\<dots> = image_mset (with_indicators (indicator_columns out))
                     (mset (map (\<lambda>r. with_count (pair_count ?F r) r) (filter (\<lambda>r. user_id r \<noteq> None) ?F)))"
    by (simp only: mset_merge_counts)
  finally show ?thesis
    by (simp add: finish_def [abs_def] multiset.map_comp o_def)
qed

lemma user_id_finish [simp]: "user_id (finish df cols r) = user_id r"
  by (simp add: finish_def with_indicators_def with_count_def)

lemma museum_id_finish [simp]: "museum_id (finish df cols r) = museum_id r"
  by (simp add: finish_def with_indicators_def with_count_def)

lemma entry_time_finish [simp]: "entry_time (finish df cols r) = entry_time r"
  by (simp add: finish_def with_indicators_def with_count_def)

lemma gap_finish [simp]:
  "time_since_previous_museum (finish df cols r) = time_since_previous_museum r"
  by (simp add: finish_def with_indicators_def with_count_def)

lemma duration_finish [simp]:
  "total_duration_card_use (finish df cols r) = total_duration_card_use r"
  by (simp add: finish_def with_indicators_def with_count_def)

lemma mset_card_rows:
  assumes "extract_features df_locations df = Inr out"
  shows "mset (card_rows u (rows out)) =
           mset (map (finish (featured (merge_locations df_locations df)) (indicator_columns out))
                     (filter (\<lambda>r. user_id r = Some u) (featured (merge_locations df_locations df))))"
proof -
  let ?F = "featured (merge_locations df_locations df)"
  let ?f = "finish ?F (indicator_columns out)"
  have "mset (card_rows u (rows out)) = filter_mset (\<lambda>r. user_id r = Some u) (mset (rows out))"
    by (simp add: card_rows_def)
  also have "\<dots> = filter_mset (\<lambda>r. user_id r = Some u)
                      (mset (map ?f (filter (\<lambda>r. user_id r \<noteq> None) ?F)))"
    by (simp only: mset_rows [OF assms])
  also have "\<dots> = mset (filter (\<lambda>r. user_id r = Some u) (map ?f (filter (\<lambda>r. user_id r \<noteq> None) ?F)))"
    by simp
  also have "filter (\<lambda>r. user_id r = Some u) (map ?f (filter (\<lambda>r. user_id r \<noteq> None) ?F))
             = map ?f (filter (\<lambda>r. user_id r = Some u) ?F)"
    by (simp add: filter_map o_def conj_commute cong: conj_cong)
  finally show ?thesis .
qed

lemma length_diffs_from: "length (diffs_from p ts) = length ts"
  by (induction ts arbitrary: p) auto

lemma featured_card:
  "filter (\<lambda>r. user_id r = Some u) (featured df) =
     map (\<lambda>(r, gap). with_features r gap (card_span (sort_key entry_time df) r))
         (zip (filter (\<lambda>r. user_id r = Some u) (sort_key entry_time df))
              (diffs_from None (map entry_time
                 (filter (\<lambda>r. user_id r = Some u) (sort_key entry_time df)))))"
proof -
  have "filter (\<lambda>r. user_id r = Some u) (featured df) =
        map (\<lambda>(r, gap). with_features r gap (card_span (sort_key entry_time df) r))
          (filter (\<lambda>(r, g). user_id r = Some u)
             (zip (sort_key entry_time df) (group_diff Map.empty (sort_key entry_time df))))"
    unfolding featured_def filter_map
    by (rule arg_cong [where f = "map _"], rule filter_cong)
       (auto simp: with_features_def)
  then show ?thesis by (simp add: group_diff_filter)
qed




lemma sorted_card_times: "sorted (card_times u df)"
  unfolding card_times_def by (rule sorted_filter) simp

lemma in_hours_0 [simp]: "in_hours 0 = 0"
  by (simp add: in_hours_def double_quot_def int_to_double_def bit_length.simps)

lemma gaps_from_Some:
  "map (map_option in_hours) (diffs_from (Some p) ts) = map Some (consecutive_gaps (p # ts))"
  by (induction ts arbitrary: p) auto

lemma gaps_from_None:
  "map (map_option in_hours) (diffs_from None (t # ts)) = None # map Some (consecutive_gaps (t # ts))"
  by (simp add: gaps_from_Some)

lemma consecutive_gaps_diffs: "consecutive_gaps ts = map in_hours (consecutive_diffs ts)"
  by (induction ts rule: consecutive_diffs.induct) auto

lemma sum_consecutive_diffs: "sum_list (consecutive_diffs (p # ts)) = last (p # ts) - p"
  by (induction ts arbitrary: p) auto

lemma map_filter_Some: "List.map_filter f xs = List.map_filter id (map f xs)"
  by (induction xs) (auto simp: List.map_filter_simps split: option.splits)

lemma map_filter_id_Some [simp]: "List.map_filter id (map Some xs) = xs"
  by (induction xs) (auto simp: List.map_filter_simps)

lemma mset_map_filter:
  "mset xs = mset ys \<Longrightarrow> mset (List.map_filter f xs) = mset (List.map_filter f ys)"
proof -
  assume "mset xs = mset ys"
  then have "filter_mset (\<lambda>x. f x \<noteq> None) (mset xs) = filter_mset (\<lambda>x. f x \<noteq> None) (mset ys)"
    by simp
  then have "mset (filter (\<lambda>x. f x \<noteq> None) xs) = mset (filter (\<lambda>x. f x \<noteq> None) ys)"
    by (simp only: mset_filter)
  then have "image_mset (the \<circ> f) (mset (filter (\<lambda>x. f x \<noteq> None) xs))
           = image_mset (the \<circ> f) (mset (filter (\<lambda>x. f x \<noteq> None) ys))"
    by (rule arg_cong)
  then show ?thesis
    by (simp only: List.map_filter_def mset_map)
qed

text \<open>The timestamps, gaps and spans of the rows of one card, in the sorted frame.\<close>

lemma card_columns:
  fixes df u
  defines "fu \<equiv> filter (\<lambda>r. user_id r = Some u) (featured df)"
  shows "map entry_time fu = card_times u df"
    and "map time_since_previous_museum fu = map (map_option in_hours) (diffs_from None (card_times u df))"
    and "\<forall>r \<in> set fu. total_duration_card_use r
           = Some (in_hours (last (card_times u df) - hd (card_times u df)))"
proof -
  let ?S = "sort_key entry_time df"
  let ?Su = "filter (\<lambda>r. user_id r = Some u) ?S"
  let ?z = "zip ?Su (diffs_from None (map entry_time ?Su))"
  have fu: "fu = map (\<lambda>(r, gap). with_features r gap (card_span ?S r)) ?z"
    unfolding fu_def by (rule featured_card)
  have fst_z: "map fst ?z = ?Su" and snd_z: "map snd ?z = diffs_from None (map entry_time ?Su)"
    by (simp_all add: length_diffs_from)
  have "map entry_time fu = map entry_time (map fst ?z)"
    unfolding fu by (simp add: with_features_def split_def)
  then show "map entry_time fu = card_times u df"
    by (simp only: fst_z card_times_def)
  have "map time_since_previous_museum fu = map (map_option in_hours) (map snd ?z)"
    unfolding fu by (simp add: with_features_def split_def)
  then show "map time_since_previous_museum fu = map (map_option in_hours) (diffs_from None (card_times u df))"
    by (simp only: snd_z card_times_def)
  show "\<forall>r \<in> set fu. total_duration_card_use r
           = Some (in_hours (last (card_times u df) - hd (card_times u df)))"
  proof
    fix r assume "r \<in> set fu"
    then obtain x g where xg: "(x, g) \<in> set ?z" and r: "r = with_features x g (card_span ?S x)"
      unfolding fu by auto
    from xg have "x \<in> set ?Su" by (rule set_zip_leftD)
    then have "user_id x = Some u" by simp
    then show "total_duration_card_use r = Some (in_hours (last (card_times u df) - hd (card_times u df)))"
      by (simp add: r with_features_def card_span_def card_times_def Let_def)
  qed
qed


lemma defined_gaps_card:
  assumes "extract_features df_locations df = Inr out"
    and "card_times u (merge_locations df_locations df) = t # ts"
  shows "mset (defined_gaps (card_rows u (rows out))) = mset (consecutive_gaps (t # ts))"
proof -
  let ?F = "featured (merge_locations df_locations df)"
  let ?fu = "filter (\<lambda>r. user_id r = Some u) ?F"
  let ?f = "finish ?F (indicator_columns out)"
  have "mset (defined_gaps (card_rows u (rows out))) = mset (defined_gaps (map ?f ?fu))"
    unfolding defined_gaps_def by (rule mset_map_filter) (rule mset_card_rows [OF assms(1)])
  also have "defined_gaps (map ?f ?fu) = List.map_filter id (map time_since_previous_museum ?fu)"
    unfolding defined_gaps_def by (subst map_filter_Some) (simp add: o_def)
  also have "\<dots> = consecutive_gaps (t # ts)"
    by (simp only: card_columns(2) assms(2) gaps_from_None)
       (simp add: List.map_filter_simps)
  finally show ?thesis .
qed

text \<open>
  Claim C3, as amended. For every card with a visit in the returned frame, the defined
  values of \<^verbatim>\<open>time_since_previous_museum\<close> over the rows of the card are the float64
  hours of the Timedelta gaps between its consecutive visits (line 116), and the
  \<^verbatim>\<open>total_duration_card_use\<close> of each of its rows is the float64 hours of the sum of
  these Timedelta gaps: the gaps add up to the duration before the conversion of lines
  117-118 and 123-124 to hours.
\<close>

theorem duration_is_hours_of_gap_sum:
  assumes "extract_features df_locations df = Inr out"
    and "r \<in> set (rows out)" and "user_id r = Some u"
  shows "mset (defined_gaps (card_rows u (rows out)))
           = mset (map in_hours
                     (consecutive_diffs (card_times u (merge_locations df_locations df))))
       \<and> total_duration_card_use r
           = Some (in_hours (sum_list
                     (consecutive_diffs (card_times u (merge_locations df_locations df)))))"
proof -
  let ?M = "merge_locations df_locations df"
  let ?F = "featured ?M"
  let ?fu = "filter (\<lambda>r. user_id r = Some u) ?F"
  let ?f = "finish ?F (indicator_columns out)"
  from assms(2,3) have "r \<in># mset (card_rows u (rows out))"
    by (simp add: card_rows_def)
  then have "r \<in> set (map ?f ?fu)"
    by (simp only: mset_card_rows [OF assms(1)] set_mset_mset)
  then obtain x where x: "x \<in> set ?fu" and rx: "r = ?f x" by auto
  from x card_columns(3) [of u ?M]
  have dur: "total_duration_card_use r
               = Some (in_hours (last (card_times u ?M) - hd (card_times u ?M)))"
    by (simp add: rx)
  from x have "?fu \<noteq> []" by (metis empty_iff list.set(1))
  then have "map entry_time ?fu \<noteq> []" by (simp only: map_is_Nil_conv not_False_eq_True)
  then have "card_times u ?M \<noteq> []" by (metis card_columns(1))
  then obtain t ts where ts: "card_times u ?M = t # ts" by (cases "card_times u ?M") auto
  have "mset (defined_gaps (card_rows u (rows out)))
          = mset (map in_hours (consecutive_diffs (card_times u ?M)))"
    by (simp only: defined_gaps_card [OF assms(1) ts] consecutive_gaps_diffs ts)
  moreover have "sum_list (consecutive_diffs (card_times u ?M))
                   = last (card_times u ?M) - hd (card_times u ?M)"
    by (simp only: ts sum_consecutive_diffs list.sel)
  ultimately show ?thesis using dur by simp
qed

theorem duration_is_hours_of_gap_sum_witness:
  "extract_features example_locations minute_visits = Inr minute_frame
   \<and> hd (rows minute_frame) \<in> set (rows minute_frame)
   \<and> user_id (hd (rows minute_frame)) = Some ''A''
   \<and> card_times ''A'' (merge_locations example_locations minute_visits)
       = [36000000000000, 36360000000000, 37080000000000]
   \<and> mset (defined_gaps (card_rows ''A'' (rows minute_frame)))
       = mset [in_hours 360000000000, in_hours 720000000000]
   \<and> total_duration_card_use (hd (rows minute_frame)) = Some (in_hours 1080000000000)"
proof -
  have a: "hd (rows minute_frame) \<in> set (rows minute_frame)"
    and b: "user_id (hd (rows minute_frame)) = Some ''A''"
    by (simp_all add: minute_frame_def)
  have t: "card_times ''A'' (merge_locations example_locations minute_visits)
             = [36000000000000, 36360000000000, 37080000000000]"
    by (simp add: card_times_def merge_locations_def example_locations_def minute_visits_def)
  from duration_is_hours_of_gap_sum [OF minute_extract a b]
  have "mset (defined_gaps (card_rows ''A'' (rows minute_frame)))
          = mset [in_hours 360000000000, in_hours 720000000000]
      \<and> total_duration_card_use (hd (rows minute_frame)) = Some (in_hours 1080000000000)"
    by (simp only: t) simp
  with minute_extract a b t show ?thesis by simp
qed

text \<open>
  The claim as stated fails. For the card with visits at 10:00, 10:06 and 10:18 the gaps
  are the float64 values of 0.1 and 0.2; their sum, exact or rounded to float64, is not
  the float64 value of 0.3, which is the duration on every row of the card.
\<close>

theorem gap_sum_differs_counterexample:
  "extract_features example_locations minute_visits = Inr minute_frame
   \<and> card_gap_sum ''A'' minute_frame = 10808639105689191 / 36028797018963968
   \<and> card_gap_double_sum ''A'' minute_frame = 1351079888211149 / 4503599627370496
   \<and> card_durations ''A'' minute_frame
       = [Some (5404319552844595 / 18014398509481984),
          Some (5404319552844595 / 18014398509481984),
          Some (5404319552844595 / 18014398509481984)]
   \<and> (10808639105689191 / 36028797018963968 :: rat) \<noteq> 5404319552844595 / 18014398509481984
   \<and> (1351079888211149 / 4503599627370496 :: rat) \<noteq> 5404319552844595 / 18014398509481984"
proof -
  have g: "defined_gaps (card_rows ''A'' (rows minute_frame))
             = [3602879701896397 / 36028797018963968, 3602879701896397 / 18014398509481984]"
    by (simp add: minute_frame_def defined_gaps_def card_rows_def List.map_filter_simps)
  have s1: "card_gap_sum ''A'' minute_frame = 10808639105689191 / 36028797018963968"
    by (simp add: card_gap_sum_def g)
  have s2: "card_gap_double_sum ''A'' minute_frame = 1351079888211149 / 4503599627370496"
    unfolding card_gap_double_sum_def g by code_simp
  have d: "card_durations ''A'' minute_frame
       = [Some (5404319552844595 / 18014398509481984),
          Some (5404319552844595 / 18014398509481984),
          Some (5404319552844595 / 18014398509481984)]"
    by (simp add: card_durations_def card_rows_def minute_frame_def)
  from minute_extract s1 s2 d show ?thesis by simp
qed

text \<open>
  Claim C6. The rows of a card in the returned frame can be arranged by ascending
  timestamp such that the first has no gap and every other row has as its gap the hours
  since the row before it; a card with a single row has no gap and the duration 0.
\<close>

theorem gap_is_time_since_previous_visit:
  assumes "extract_features df_locations df = Inr out"
    and "card_rows u (rows out) \<noteq> []"
  shows "(\<exists>vs. mset vs = mset (card_rows u (rows out))
            \<and> sorted (map entry_time vs)
            \<and> map time_since_previous_museum vs
                = None # map Some (consecutive_gaps (map entry_time vs)))
       \<and> (\<forall>r. card_rows u (rows out) = [r] \<longrightarrow>
            time_since_previous_museum r = None \<and> total_duration_card_use r = Some 0)"
proof -
  let ?M = "merge_locations df_locations df"
  let ?F = "featured ?M"
  let ?fu = "filter (\<lambda>r. user_id r = Some u) ?F"
  let ?f = "finish ?F (indicator_columns out)"
  let ?vs = "map ?f ?fu"
  have ms: "mset ?vs = mset (card_rows u (rows out))"
    by (rule mset_card_rows [OF assms(1), symmetric])
  have et: "map entry_time ?vs = card_times u ?M"
    by (simp add: o_def card_columns(1))
  have gp: "map time_since_previous_museum ?vs
              = map (map_option in_hours) (diffs_from None (card_times u ?M))"
    by (simp add: o_def card_columns(2))
  from assms(2) ms have "?vs \<noteq> []" by (metis mset_zero_iff)
  then have "card_times u ?M \<noteq> []" using et by (metis map_is_Nil_conv)
  then obtain t ts where ts: "card_times u ?M = t # ts" by (cases "card_times u ?M") auto
  have gp': "map time_since_previous_museum ?vs = None # map Some (consecutive_gaps (map entry_time ?vs))"
    by (simp only: gp et ts gaps_from_None)
  have srt: "sorted (map entry_time ?vs)"
    by (simp only: et sorted_card_times)
  have single: "time_since_previous_museum r = None \<and> total_duration_card_use r = Some 0"
    if "card_rows u (rows out) = [r]" for r
  proof -
    from that ms have "mset ?vs = {#r#}" by (simp only: mset.simps)
    then have vs: "?vs = [r]" by (simp only: mset_single_iff)
    then obtain x where fu: "?fu = [x]" and rx: "r = ?f x" by auto
    from gp' vs have "time_since_previous_museum r = None" by simp
    moreover from et vs have "card_times u ?M = [entry_time r]" by simp
    with card_columns(3) [of u ?M] fu rx have "total_duration_card_use r = Some 0"
      by simp
    ultimately show ?thesis by simp
  qed
  from ms srt gp' have "\<exists>vs. mset vs = mset (card_rows u (rows out))
            \<and> sorted (map entry_time vs)
            \<and> map time_since_previous_museum vs
                = None # map Some (consecutive_gaps (map entry_time vs))"
    by (intro exI [where x = ?vs] conjI)
  moreover have "\<forall>r. card_rows u (rows out) = [r] \<longrightarrow>
            time_since_previous_museum r = None \<and> total_duration_card_use r = Some 0"
    using single by (intro allI impI)
  ultimately show ?thesis by (rule conjI)
qed

theorem gap_is_time_since_previous_visit_witness:
  "extract_features example_locations example_visits = Inr example_frame
   \<and> card_rows ''B'' (rows example_frame) = [rows example_frame ! 1]
   \<and> time_since_previous_museum (rows example_frame ! 1) = None
   \<and> total_duration_card_use (rows example_frame ! 1) = Some 0"
proof -
  have b: "card_rows ''B'' (rows example_frame) = [rows example_frame ! 1]"
    by (simp add: example_frame_def card_rows_def)
  then have ne: "card_rows ''B'' (rows example_frame) \<noteq> []" by simp
  from gap_is_time_since_previous_visit [OF example_extract ne] b
  have "time_since_previous_museum (rows example_frame ! 1) = None
      \<and> total_duration_card_use (rows example_frame ! 1) = Some 0" by blast
  with example_extract b show ?thesis by simp
qed

lemma user_id_featured: "map user_id (featured df) = map user_id (sort_key entry_time df)"
proof -
  have "map user_id (featured df) = map user_id (map fst (zip (sort_key entry_time df)
            (group_diff Map.empty (sort_key entry_time df))))"
    by (simp add: featured_def with_features_def split_def)
  then show ?thesis by (simp add: length_group_diff)
qed

lemma length_filter_map: "length (filter P (map f xs)) = length (filter (\<lambda>x. P (f x)) xs)"
  by (simp add: filter_map o_def)

text \<open>
  Claim C9. No row of the returned frame has a null card, and the frame has as many
  rows as the frame merged at line 104 has rows with a card: the merge of line 132
  removes exactly the visits without a card.
\<close>

theorem null_cards_absent:
  assumes "extract_features df_locations df = Inr out"
  shows "(\<forall>r \<in> set (rows out). user_id r \<noteq> None)
       \<and> length (rows out)
           = length (filter (\<lambda>v. user_id v \<noteq> None) (merge_locations df_locations df))"
proof -
  let ?M = "merge_locations df_locations df"
  let ?F = "featured ?M"
  let ?f = "finish ?F (indicator_columns out)"
  have ms: "mset (rows out) = mset (map ?f (filter (\<lambda>r. user_id r \<noteq> None) ?F))"
    by (rule mset_rows [OF assms])
  then have "set (rows out) = set (map ?f (filter (\<lambda>r. user_id r \<noteq> None) ?F))"
    by (rule mset_eq_setD)
  then have a: "\<forall>r \<in> set (rows out). user_id r \<noteq> None" by auto
  from ms have "length (rows out) = length (map ?f (filter (\<lambda>r. user_id r \<noteq> None) ?F))"
    by (rule mset_eq_length)
  also have "\<dots> = length (filter (\<lambda>r. user_id r \<noteq> None) ?F)"
    by (simp only: length_map)
  also have "\<dots> = length (filter (\<lambda>y. y \<noteq> None) (map user_id ?F))"
    by (simp only: length_filter_map)
  also have "\<dots> = length (filter (\<lambda>v. user_id v \<noteq> None) (sort_key entry_time ?M))"
    by (simp only: user_id_featured length_filter_map)
  also have "\<dots> = size (filter_mset (\<lambda>v. user_id v \<noteq> None) (mset (sort_key entry_time ?M)))"
    by (metis mset_filter size_mset)
  also have "\<dots> = size (filter_mset (\<lambda>v. user_id v \<noteq> None) (mset ?M))"
    by (simp only: mset_sort)
  also have "\<dots> = length (filter (\<lambda>v. user_id v \<noteq> None) ?M)"
    by (metis mset_filter size_mset)
  finally show ?thesis using a by simp
qed

theorem null_cards_absent_witness:
  "extract_features example_locations example_visits = Inr example_frame
   \<and> map user_id (rows example_frame) = [Some ''A'', Some ''B'', Some ''A'', Some ''A'']
   \<and> length (rows example_frame) = 4
   \<and> length (filter (\<lambda>v. user_id v \<noteq> None) (merge_locations example_locations example_visits)) = 4"
proof -
  have u: "map user_id (rows example_frame) = [Some ''A'', Some ''B'', Some ''A'', Some ''A'']"
    by (simp add: example_frame_def)
  have l: "length (rows example_frame) = 4" by (simp add: example_frame_def)
  from null_cards_absent [OF example_extract] l
  have "length (filter (\<lambda>v. user_id v \<noteq> None) (merge_locations example_locations example_visits)) = 4"
    by simp
  with example_extract u l show ?thesis by simp
qed

lemma museum_id_with_indicators [simp]: "museum_id (with_indicators cols r) = museum_id r"
  by (simp add: with_indicators_def)

lemma card_ids_le_Max:
  fixes S :: "int set"
  assumes "finite S" and "S \<noteq> {}" and "\<forall>x \<in> S. 1 \<le> x"
  shows "int (card S) \<le> Max S"
proof -
  have "S \<subseteq> {1..Max S}" using assms by (auto simp: Max_ge)
  then have "card S \<le> card {1..Max S}" by (rule card_mono [rotated]) simp
  also have "\<dots> = nat (Max S)" by simp
  finally have "card S \<le> nat (Max S)" .
  moreover have "1 \<le> Max S" using assms Max_in by blast
  ultimately show ?thesis by linarith
qed

text \<open>
  Claim C7, as amended. The indicator columns are those of the numbers from 1 to the
  number of distinct museums of the returned frame minus one; on every row the
  indicator \<open>n\<close> is 1 if the museum of the row is \<open>n\<close> and 0 otherwise; and when every
  museum identifier of the frame is at least 1, the highest one has no column.
\<close>

theorem indicator_columns_of_frame:
  assumes "extract_features df_locations df = Inr out"
  shows "indicator_columns out = [1..int (card (museum_id ` set (rows out))) - 1]
       \<and> (\<forall>r \<in> set (rows out).
            map fst (is_in_museum r) = indicator_columns out
            \<and> (\<forall>n \<in> set (indicator_columns out).
                  map_of (is_in_museum r) n = Some (if museum_id r = n then 1 else 0)))
       \<and> ((\<forall>r \<in> set (rows out). 1 \<le> museum_id r) \<and> rows out \<noteq> [] \<longrightarrow>
            highest_museum_id out \<notin> set (indicator_columns out))"
proof -
  let ?F = "featured (merge_locations df_locations df)"
  let ?C = "merge_counts (value_counts ?F) ?F"
  from assms have c: "indicator_columns out = indicator_range (nunique ?C)"
    and r: "rows out = map (with_indicators (indicator_columns out)) ?C"
    by (auto simp: extract_features_eq)
  have ids: "museum_id ` set (rows out) = set (map museum_id ?C)"
    by (subst r) (simp add: image_image)
  have "nunique ?C = card (museum_id ` set (rows out))"
    by (simp only: ids nunique_def length_remdups_card_conv)
  with c have p1: "indicator_columns out = [1..int (card (museum_id ` set (rows out))) - 1]"
    by (simp add: indicator_range_def)
  have p2: "\<forall>r \<in> set (rows out).
            map fst (is_in_museum r) = indicator_columns out
            \<and> (\<forall>n \<in> set (indicator_columns out).
                  map_of (is_in_museum r) n = Some (if museum_id r = n then 1 else 0))"
  proof
    fix x assume "x \<in> set (rows out)"
    then obtain y where x: "x = with_indicators (indicator_columns out) y"
      by (subst (asm) r) auto
    show "map fst (is_in_museum x) = indicator_columns out
            \<and> (\<forall>n \<in> set (indicator_columns out).
                  map_of (is_in_museum x) n = Some (if museum_id x = n then 1 else 0))"
      by (simp add: x with_indicators_def o_def map_of_map_restrict)
  qed
  have p3: "highest_museum_id out \<notin> set (indicator_columns out)"
    if pos: "\<forall>r \<in> set (rows out). 1 \<le> museum_id r" and ne: "rows out \<noteq> []"
  proof -
    let ?S = "museum_id ` set (rows out)"
    have "int (card ?S) \<le> Max ?S"
      using pos ne by (intro card_ids_le_Max) auto
    then show ?thesis by (simp add: p1 highest_museum_id_def)
  qed
  from p1 p2 p3 show ?thesis by blast
qed

theorem indicator_columns_of_frame_witness:
  "extract_features example_locations example_visits = Inr example_frame
   \<and> map museum_id (rows example_frame) = [2, 2, 1, 1]
   \<and> indicator_columns example_frame = [1]
   \<and> map is_in_museum (rows example_frame) = [[(1, 0)], [(1, 0)], [(1, 1)], [(1, 1)]]
   \<and> highest_museum_id example_frame \<notin> set (indicator_columns example_frame)"
proof -
  have ids: "map museum_id (rows example_frame) = [2, 2, 1, 1]"
    by (simp add: example_frame_def)
  then have "set (map museum_id (rows example_frame)) = {1, 2}" by auto
  then have pos: "(\<forall>r \<in> set (rows example_frame). 1 \<le> museum_id r) \<and> rows example_frame \<noteq> []"
    using ids by auto
  from indicator_columns_of_frame [OF example_extract] pos
  have "highest_museum_id example_frame \<notin> set (indicator_columns example_frame)" by blast
  with example_extract ids show ?thesis by (simp add: example_frame_def)
qed

text \<open>
  The claim as stated fails when a museum has the identifier 0: for the museums 0 and 1
  the one column is that of 1, the highest identifier.
\<close>

theorem highest_museum_has_column_counterexample:
  "map_sum id indicator_columns (extract_features zero_locations zero_visits) = Inr [1]
   \<and> map_sum id highest_museum_id (extract_features zero_locations zero_visits) = Inr 1"
  by (simp add: extract_defs zero_locations_def zero_visits_def highest_museum_id_def upto.simps)

subsection \<open>Correlation\<close>

lemma float_order:
  "float_gt v a \<Longrightarrow> float_lt v b \<Longrightarrow> float_le b a \<Longrightarrow> False"
  by (cases v; cases a; cases b) (auto simp: float_lt_def float_le_def)

lemma pivot_columns: "pivot df = Inr table \<Longrightarrow> distinct (map fst table)"
  by (auto simp: pivot_def o_def split: if_splits)

lemma corr_stack_entry:
  "(c1, c2, v) \<in> set (corr_stack f table) \<Longrightarrow>
     \<exists>x1 x2. (c1, x1) \<in> set table \<and> (c2, x2) \<in> set table \<and> v = f x1 x2"
  by (auto simp: corr_stack_def split: if_splits)

lemma corr_stack_functional:
  assumes "distinct (map fst table)"
    and "(c1, c2, v) \<in> set (corr_stack f table)" and "(c1, c2, w) \<in> set (corr_stack f table)"
  shows "v = w"
proof -
  from corr_stack_entry [OF assms(2)] obtain x1 x2
    where a: "(c1, x1) \<in> set table" "(c2, x2) \<in> set table" "v = f x1 x2" by blast
  from corr_stack_entry [OF assms(3)] obtain y1 y2
    where b: "(c1, y1) \<in> set table" "(c2, y2) \<in> set table" "w = f y1 y2" by blast
  from assms(1) a(1) b(1) have "x1 = y1" by (rule eq_key_imp_eq_value)
  moreover from assms(1) a(2) b(2) have "x2 = y2" by (rule eq_key_imp_eq_value)
  ultimately show ?thesis using a(3) b(3) by simp
qed

lemma select_pairs_mem:
  "e \<in> set (select_pairs beyond lst cm) \<longleftrightarrow>
     e \<in> set cm \<and> beyond (coefficient e) \<and> isfinite (coefficient e)
     \<and> fst (museum_pair e) \<in> set lst \<and> snd (museum_pair e) \<in> set lst"
  by (cases e) (auto simp: select_pairs_def coefficient_def museum_pair_def)

text \<open>
  Claim C5. Whenever \<^verbatim>\<open>get_correlation_matrix\<close> returns, no entry of the high or of the
  inverse set pairs a museum with itself; every entry of the high set has a finite
  coefficient greater than \<^verbatim>\<open>above_threshold\<close>, every entry of the inverse set a finite
  coefficient less than \<^verbatim>\<open>below_threshold\<close>; both museums of every entry are in the
  list \<^verbatim>\<open>lst\<close>; and when \<^verbatim>\<open>below_threshold\<close> is at most \<^verbatim>\<open>above_threshold\<close> the two
  sets share no entry and no pair of museums.
\<close>

theorem correlation_sets:
  assumes "get_correlation_matrix df lst corr_method timedelta_subset timedeltamin timedeltamax
             below_threshold above_threshold = Inr (m, high_corr, inverse_corr)"
  shows "(\<forall>e \<in> set high_corr.
            fst (museum_pair e) \<noteq> snd (museum_pair e) \<and> isfinite (coefficient e)
            \<and> float_gt (coefficient e) above_threshold
            \<and> fst (museum_pair e) \<in> set lst \<and> snd (museum_pair e) \<in> set lst)
       \<and> (\<forall>e \<in> set inverse_corr.
            fst (museum_pair e) \<noteq> snd (museum_pair e) \<and> isfinite (coefficient e)
            \<and> float_lt (coefficient e) below_threshold
            \<and> fst (museum_pair e) \<in> set lst \<and> snd (museum_pair e) \<in> set lst)
       \<and> (float_le below_threshold above_threshold \<longrightarrow>
            set high_corr \<inter> set inverse_corr = {}
            \<and> museum_pair ` set high_corr \<inter> museum_pair ` set inverse_corr = {})"
proof -
  define df1 where "df1 = (if timedelta_subset
      then filter (\<lambda>r. timedeltamin \<le> cm_timedelta r \<and> cm_timedelta r \<le> timedeltamax) df else df)"
  from assms obtain table where t: "pivot df1 = Inr table"
    by (auto simp: get_correlation_matrix_def df1_def Let_def split: sum.splits)
  define cm where "cm = filter (\<lambda>(c1, c2, v). c1 \<noteq> c2) (corr_stack corr_method table)"
  from assms t have m: "m = corr_stack corr_method table"
    and h: "high_corr = select_pairs (\<lambda>v. float_gt v above_threshold) lst cm"
    and i: "inverse_corr = select_pairs (\<lambda>v. float_lt v below_threshold) lst cm"
    by (auto simp: get_correlation_matrix_def df1_def cm_def Let_def split: sum.splits if_splits)
  have cm_off: "fst (museum_pair e) \<noteq> snd (museum_pair e)" if "e \<in> set cm" for e
    using that unfolding cm_def museum_pair_def by (simp add: split_def)
  have cm_sub: "e \<in> set (corr_stack corr_method table)" if "e \<in> set cm" for e
    using that by (auto simp: cm_def)
  have dist: "distinct (map fst table)" using t by (rule pivot_columns)
  have part1: "\<forall>e \<in> set high_corr.
            fst (museum_pair e) \<noteq> snd (museum_pair e) \<and> isfinite (coefficient e)
            \<and> float_gt (coefficient e) above_threshold
            \<and> fst (museum_pair e) \<in> set lst \<and> snd (museum_pair e) \<in> set lst"
    by (simp add: h select_pairs_mem cm_off)
  have part2: "\<forall>e \<in> set inverse_corr.
            fst (museum_pair e) \<noteq> snd (museum_pair e) \<and> isfinite (coefficient e)
            \<and> float_lt (coefficient e) below_threshold
            \<and> fst (museum_pair e) \<in> set lst \<and> snd (museum_pair e) \<in> set lst"
    by (simp add: i select_pairs_mem cm_off)
  have pairs: False
    if le: "float_le below_threshold above_threshold"
      and a: "a \<in> set high_corr" and b: "b \<in> set inverse_corr"
      and eq: "museum_pair a = museum_pair b" for a b
  proof -
    obtain c1 c2 v where a': "a = (c1, c2, v)" by (cases a) auto
    obtain d1 d2 w where b': "b = (d1, d2, w)" by (cases b) auto
    from eq a' b' have cd: "d1 = c1" "d2 = c2" by (auto simp: museum_pair_def)
    from a h have am: "a \<in> set cm" and agt: "float_gt (coefficient a) above_threshold"
      by (auto simp: select_pairs_mem)
    from b i have bm: "b \<in> set cm" and blt: "float_lt (coefficient b) below_threshold"
      by (auto simp: select_pairs_mem)
    from corr_stack_functional [OF dist] cm_sub [OF am] cm_sub [OF bm] a' b' cd
    have "v = w" by blast
    with agt blt a' b' le show False
      by (auto simp: coefficient_def dest: float_order)
  qed
  have part3: "float_le below_threshold above_threshold \<longrightarrow>
            set high_corr \<inter> set inverse_corr = {}
            \<and> museum_pair ` set high_corr \<inter> museum_pair ` set inverse_corr = {}"
    using pairs by blast
  from part1 part2 part3 show ?thesis by blast
qed

lemma example_correlation:
  "get_correlation_matrix example_series [1, 2, 3] example_corr False 0 0 (Finite 0) (Finite 0)
     = Inr ([(1, 1, Finite 1), (1, 2, Finite (- 1 / 2)), (1, 3, Finite (- 1 / 2)),
             (2, 1, Finite (- 1 / 2)), (2, 2, Finite 1), (2, 3, Finite (1 / 2)),
             (3, 1, Finite (- 1 / 2)), (3, 2, Finite (1 / 2)), (3, 3, Finite 1)],
            [(2, 3, Finite (1 / 2)), (3, 2, Finite (1 / 2))],
            [(1, 2, Finite (- 1 / 2)), (1, 3, Finite (- 1 / 2)),
             (2, 1, Finite (- 1 / 2)), (3, 1, Finite (- 1 / 2))])"
  by (simp add: get_correlation_matrix_def example_series_def example_corr_def pivot_def
      corr_stack_def select_pairs_def float_lt_def)

theorem correlation_sets_witness:
  "get_correlation_matrix example_series [1, 2, 3] example_corr False 0 0 (Finite 0) (Finite 0)
     = Inr ([(1, 1, Finite 1), (1, 2, Finite (- 1 / 2)), (1, 3, Finite (- 1 / 2)),
             (2, 1, Finite (- 1 / 2)), (2, 2, Finite 1), (2, 3, Finite (1 / 2)),
             (3, 1, Finite (- 1 / 2)), (3, 2, Finite (1 / 2)), (3, 3, Finite 1)],
            [(2, 3, Finite (1 / 2)), (3, 2, Finite (1 / 2))],
            [(1, 2, Finite (- 1 / 2)), (1, 3, Finite (- 1 / 2)),
             (2, 1, Finite (- 1 / 2)), (3, 1, Finite (- 1 / 2))])
   \<and> float_le (Finite 0) (Finite 0)
   \<and> isfinite (coefficient (2, 3, Finite (1 / 2)))
   \<and> float_gt (coefficient (2, 3, Finite (1 / 2))) (Finite 0)
   \<and> float_lt (coefficient (1, 2, Finite (- 1 / 2))) (Finite 0)
   \<and> fst (museum_pair (2, 3, Finite (1 / 2))) \<in> set [1, 2, 3]
   \<and> snd (museum_pair (2, 3, Finite (1 / 2))) \<in> set [1, 2, 3]
   \<and> museum_pair ` set [(2, 3, Finite (1 / 2)), (3, 2, Finite (1 / 2))]
       \<inter> museum_pair ` set [(1, 2, Finite (- 1 / 2)), (1, 3, Finite (- 1 / 2)),
                            (2, 1, Finite (- 1 / 2)), (3, 1, Finite (- 1 / 2))] = {}"
  using correlation_sets [OF example_correlation] example_correlation
  by (simp add: float_le_def)

end
